theory Spec2Isabelle
  imports Main
begin

section \<open>Progress trackers of the training loops\<close>

text \<open>
  A shallow embedding of \<^verbatim>\<open>pytorch_lightning/trainer/progress.py\<close>.
  Every dataclass is a record, every method a function that takes the object and returns
  the mutated object, and every exception a value \<open>Inl e\<close> of the result type.
  A subclass is a record extension, so a method of \<^verbatim>\<open>Progress\<close> applies to
  \<^verbatim>\<open>EpochProgress\<close> and \<^verbatim>\<open>TrainingEpochProgress\<close> as it does in Python.
\<close>

subsection \<open>Values and errors\<close>

text \<open>
  The values that the fields and the nested state dictionaries carry: \<^verbatim>\<open>None\<close>,
  integers, booleans and dictionaries with string keys. A dictionary is an association
  list read with \<^const>\<open>map_of\<close>; the order is the one \<^verbatim>\<open>dataclasses.asdict\<close> produces.
  Python checks no annotation at run time, so a field is a \<open>pyval\<close>: the annotation
  \<^verbatim>\<open>Optional[int]\<close> names the values \<open>PNone\<close> and \<open>PInt n\<close>.
\<close>

datatype pyval = PNone | PInt int | PBool bool | PDict "(string \<times> pyval) list"

datatype error = AttributeError | KeyError | TypeError

fun and_then :: "error + 'a \<Rightarrow> ('a \<Rightarrow> error + 'b) \<Rightarrow> error + 'b" where
  "and_then (Inl e) f = Inl e"
| "and_then (Inr x) f = f x"

text \<open>\<^verbatim>\<open>state[key]\<close>: a missing key raises \<^verbatim>\<open>KeyError\<close>, and \<^verbatim>\<open>None\<close>, an integer or a
  boolean is not subscriptable.\<close>

fun py_getitem :: "pyval \<Rightarrow> string \<Rightarrow> error + pyval" where
  "py_getitem (PDict kvs) key = (case map_of kvs key of None \<Rightarrow> Inl KeyError | Some v \<Rightarrow> Inr v)"
| "py_getitem PNone key = Inl TypeError"
| "py_getitem (PInt n) key = Inl TypeError"
| "py_getitem (PBool b) key = Inl TypeError"

text \<open>\<^verbatim>\<open>x + 1\<close>, the right-hand side of \<^verbatim>\<open>x += 1\<close>. A boolean is an integer in Python.\<close>

fun py_add_one :: "pyval \<Rightarrow> error + pyval" where
  "py_add_one (PInt n) = Inr (PInt (n + 1))"
| "py_add_one (PBool b) = Inr (PInt ((if b then 1 else 0) + 1))"
| "py_add_one PNone = Inl TypeError"
| "py_add_one (PDict kvs) = Inl TypeError"

subsection \<open>Tracker\<close>

datatype stage = Ready | Started | Processed | Completed

record Tracker =
  ready :: pyval
  started :: pyval
  processed :: pyval
  completed :: pyval

text \<open>Reading a stage field by name, and the write of \<^verbatim>\<open>object.__setattr__\<close>.\<close>

fun getattr :: "Tracker \<Rightarrow> stage \<Rightarrow> pyval" where
  "getattr self Ready = ready self"
| "getattr self Started = started self"
| "getattr self Processed = processed self"
| "getattr self Completed = completed self"

fun object_setattr :: "Tracker \<Rightarrow> stage \<Rightarrow> pyval \<Rightarrow> Tracker" where
  "object_setattr self Ready v = self\<lparr>ready := v\<rparr>"
| "object_setattr self Started v = self\<lparr>started := v\<rparr>"
| "object_setattr self Processed v = self\<lparr>processed := v\<rparr>"
| "object_setattr self Completed v = self\<lparr>completed := v\<rparr>"

text \<open>
  \<^verbatim>\<open>Tracker.__setattr__\<close>: the guard reads the present value of the field and raises when
  it is \<^verbatim>\<open>None\<close>; the new value is not looked at.
\<close>

definition Tracker_setattr :: "Tracker \<Rightarrow> stage \<Rightarrow> pyval \<Rightarrow> error + Tracker" where
  "Tracker_setattr self key v =
     (if getattr self key = PNone then Inl AttributeError
      else Inr (object_setattr self key v))"

text \<open>
  The generated \<^verbatim>\<open>__init__\<close> with keyword arguments. Each field is assigned through
  \<^verbatim>\<open>__setattr__\<close> while the instance has no such attribute yet, so the guard reads the
  class default \<open>0\<close> and never raises: a field can be constructed as \<^verbatim>\<open>None\<close>.
\<close>

definition Tracker_init :: "(stage \<rightharpoonup> pyval) \<Rightarrow> Tracker" where
  "Tracker_init kwargs =
     \<lparr>ready = (case kwargs Ready of None \<Rightarrow> PInt 0 | Some v \<Rightarrow> v),
      started = (case kwargs Started of None \<Rightarrow> PInt 0 | Some v \<Rightarrow> v),
      processed = (case kwargs Processed of None \<Rightarrow> PInt 0 | Some v \<Rightarrow> v),
      completed = (case kwargs Completed of None \<Rightarrow> PInt 0 | Some v \<Rightarrow> v)\<rparr>"

definition Tracker_reset :: "Tracker \<Rightarrow> error + Tracker" where
  "Tracker_reset self0 =
     and_then (if ready self0 \<noteq> PNone then Tracker_setattr self0 Ready (PInt 0) else Inr self0)
       (\<lambda>self1.
     and_then (if started self1 \<noteq> PNone then Tracker_setattr self1 Started (PInt 0) else Inr self1)
       (\<lambda>self2.
     and_then (if processed self2 \<noteq> PNone then Tracker_setattr self2 Processed (PInt 0) else Inr self2)
       (\<lambda>self3.
     if completed self3 \<noteq> PNone then Tracker_setattr self3 Completed (PInt 0) else Inr self3)))"

definition Tracker_reset_on_restart :: "Tracker \<Rightarrow> error + Tracker" where
  "Tracker_reset_on_restart self0 =
     (let v = (if processed self0 = PNone then completed self0 else processed self0) in
      and_then (if ready self0 \<noteq> PNone then Tracker_setattr self0 Ready v else Inr self0)
        (\<lambda>self1.
      and_then (if started self1 \<noteq> PNone then Tracker_setattr self1 Started v else Inr self1)
        (\<lambda>self2.
      and_then (if processed self2 \<noteq> PNone then Tracker_setattr self2 Processed v else Inr self2)
        (\<lambda>self3.
      if completed self3 \<noteq> PNone then Tracker_setattr self3 Completed v else Inr self3))))"

text \<open>
  \<^verbatim>\<open>_DataclassStateDictMixin.__setstate__\<close> on a Tracker: \<^verbatim>\<open>self.__dict__.update(state)\<close>
  writes the instance dictionary itself. A key of the mapping replaces the field, a field
  without a key keeps its value, and \<^verbatim>\<open>__setattr__\<close> is not called. Keys other than the
  four fields would become attributes that no method reads; they are dropped here.
  \<^verbatim>\<open>dict.update\<close> of \<^verbatim>\<open>None\<close>, an integer or a boolean raises \<^verbatim>\<open>TypeError\<close>.
\<close>

definition dict_update_field :: "(string \<times> pyval) list \<Rightarrow> string \<Rightarrow> pyval \<Rightarrow> pyval" where
  "dict_update_field kvs key old = (case map_of kvs key of None \<Rightarrow> old | Some v \<Rightarrow> v)"

fun Tracker_setstate :: "Tracker \<Rightarrow> pyval \<Rightarrow> error + Tracker" where
  "Tracker_setstate self (PDict kvs) =
     Inr \<lparr>ready = dict_update_field kvs ''ready'' (ready self),
          started = dict_update_field kvs ''started'' (started self),
          processed = dict_update_field kvs ''processed'' (processed self),
          completed = dict_update_field kvs ''completed'' (completed self)\<rparr>"
| "Tracker_setstate self PNone = Inl TypeError"
| "Tracker_setstate self (PInt n) = Inl TypeError"
| "Tracker_setstate self (PBool b) = Inl TypeError"

definition Tracker_state_dict :: "Tracker \<Rightarrow> pyval" where
  "Tracker_state_dict self =
     PDict [(''ready'', ready self), (''started'', started self),
            (''processed'', processed self), (''completed'', completed self)]"

definition Tracker_from_state_dict :: "pyval \<Rightarrow> error + Tracker" where
  "Tracker_from_state_dict state_dict = Tracker_setstate (Tracker_init Map.empty) state_dict"

subsection \<open>Progress\<close>

record Progress =
  total :: Tracker
  current :: Tracker

text \<open>
  Each increment returns at once when the field is \<^verbatim>\<open>None\<close> on either side. Otherwise
  \<^verbatim>\<open>+=\<close> reads the field, adds one and assigns through \<^verbatim>\<open>Tracker.__setattr__\<close>, first on
  \<^verbatim>\<open>total\<close>, then on \<^verbatim>\<open>current\<close>.
\<close>

definition Progress_increment_ready :: "'a Progress_scheme \<Rightarrow> error + 'a Progress_scheme" where
  "Progress_increment_ready self =
     (if ready (total self) = PNone \<or> ready (current self) = PNone then Inr self
      else
        and_then (py_add_one (ready (total self))) (\<lambda>a.
        and_then (Tracker_setattr (total self) Ready a) (\<lambda>t.
        and_then (py_add_one (ready (current self))) (\<lambda>b.
        and_then (Tracker_setattr (current self) Ready b) (\<lambda>c.
        Inr (self\<lparr>total := t, current := c\<rparr>))))))"

definition Progress_increment_started :: "'a Progress_scheme \<Rightarrow> error + 'a Progress_scheme" where
  "Progress_increment_started self =
     (if started (total self) = PNone \<or> started (current self) = PNone then Inr self
      else
        and_then (py_add_one (started (total self))) (\<lambda>a.
        and_then (Tracker_setattr (total self) Started a) (\<lambda>t.
        and_then (py_add_one (started (current self))) (\<lambda>b.
        and_then (Tracker_setattr (current self) Started b) (\<lambda>c.
        Inr (self\<lparr>total := t, current := c\<rparr>))))))"

definition Progress_increment_processed :: "'a Progress_scheme \<Rightarrow> error + 'a Progress_scheme" where
  "Progress_increment_processed self =
     (if processed (total self) = PNone \<or> processed (current self) = PNone then Inr self
      else
        and_then (py_add_one (processed (total self))) (\<lambda>a.
        and_then (Tracker_setattr (total self) Processed a) (\<lambda>t.
        and_then (py_add_one (processed (current self))) (\<lambda>b.
        and_then (Tracker_setattr (current self) Processed b) (\<lambda>c.
        Inr (self\<lparr>total := t, current := c\<rparr>))))))"

definition Progress_increment_completed :: "'a Progress_scheme \<Rightarrow> error + 'a Progress_scheme" where
  "Progress_increment_completed self =
     (if completed (total self) = PNone \<or> completed (current self) = PNone then Inr self
      else
        and_then (py_add_one (completed (total self))) (\<lambda>a.
        and_then (Tracker_setattr (total self) Completed a) (\<lambda>t.
        and_then (py_add_one (completed (current self))) (\<lambda>b.
        and_then (Tracker_setattr (current self) Completed b) (\<lambda>c.
        Inr (self\<lparr>total := t, current := c\<rparr>))))))"

text \<open>\<^verbatim>\<open>Progress()\<close> builds two default Trackers; \<^verbatim>\<open>from_defaults\<close> passes the same
  keyword arguments to both.\<close>

definition Progress_init :: Progress where
  "Progress_init = \<lparr>total = Tracker_init Map.empty, current = Tracker_init Map.empty\<rparr>"

definition Progress_from_defaults :: "(stage \<rightharpoonup> pyval) \<Rightarrow> Progress" where
  "Progress_from_defaults kwargs = \<lparr>total = Tracker_init kwargs, current = Tracker_init kwargs\<rparr>"

definition Progress_setstate :: "'a Progress_scheme \<Rightarrow> pyval \<Rightarrow> error + 'a Progress_scheme" where
  "Progress_setstate self state =
     and_then (py_getitem state ''total'') (\<lambda>st.
     and_then (Tracker_setstate (total self) st) (\<lambda>t.
     and_then (py_getitem state ''current'') (\<lambda>sc.
     and_then (Tracker_setstate (current self) sc) (\<lambda>c.
     Inr (self\<lparr>total := t, current := c\<rparr>)))))"

definition Progress_state_dict :: "Progress \<Rightarrow> pyval" where
  "Progress_state_dict self =
     PDict [(''total'', Tracker_state_dict (total self)),
            (''current'', Tracker_state_dict (current self))]"

definition Progress_from_state_dict :: "pyval \<Rightarrow> error + Progress" where
  "Progress_from_state_dict state_dict = Progress_setstate Progress_init state_dict"

subsection \<open>EpochProgress and the optimizer side\<close>

text \<open>\<^verbatim>\<open>BatchProgress\<close> adds nothing to \<^verbatim>\<open>Progress\<close>.\<close>

type_synonym BatchProgress = Progress

record EpochProgress = Progress +
  dataloader_idx :: pyval
  batch :: BatchProgress

definition EpochProgress_init :: EpochProgress where
  "EpochProgress_init =
     \<lparr>total = Tracker_init Map.empty, current = Tracker_init Map.empty,
      dataloader_idx = PInt 0, batch = Progress_init\<rparr>"

definition EpochProgress_reset_on_epoch ::
    "'a EpochProgress_scheme \<Rightarrow> error + 'a EpochProgress_scheme" where
  "EpochProgress_reset_on_epoch self =
     and_then (Tracker_reset (current (batch self))) (\<lambda>c.
     Inr (self\<lparr>batch := (batch self)\<lparr>current := c\<rparr>\<rparr>))"

definition EpochProgress_setstate ::
    "'a EpochProgress_scheme \<Rightarrow> pyval \<Rightarrow> error + 'a EpochProgress_scheme" where
  "EpochProgress_setstate self0 state =
     and_then (Progress_setstate self0 state) (\<lambda>self1.
     and_then (py_getitem state ''batch'') (\<lambda>sb.
     and_then (Progress_setstate (batch self1) sb) (\<lambda>b.
     and_then (py_getitem state ''dataloader_idx'') (\<lambda>i.
     Inr (self1\<lparr>batch := b, dataloader_idx := i\<rparr>)))))"

definition EpochProgress_state_dict :: "EpochProgress \<Rightarrow> pyval" where
  "EpochProgress_state_dict self =
     PDict [(''total'', Tracker_state_dict (total self)),
            (''current'', Tracker_state_dict (current self)),
            (''dataloader_idx'', dataloader_idx self),
            (''batch'', Progress_state_dict (batch self))]"

definition EpochProgress_from_state_dict :: "pyval \<Rightarrow> error + EpochProgress" where
  "EpochProgress_from_state_dict state_dict = EpochProgress_setstate EpochProgress_init state_dict"

record OptimizerProgress =
  step :: Progress
  zero_grad :: Progress

definition OptimizerProgress_init :: OptimizerProgress where
  "OptimizerProgress_init =
     \<lparr>step = Progress_from_defaults [Processed \<mapsto> PNone],
      zero_grad = Progress_from_defaults [Processed \<mapsto> PNone]\<rparr>"

definition OptimizerProgress_reset_on_epoch :: "OptimizerProgress \<Rightarrow> error + OptimizerProgress" where
  "OptimizerProgress_reset_on_epoch self =
     and_then (Tracker_reset (current (step self))) (\<lambda>c.
     and_then (Tracker_reset (current (zero_grad self))) (\<lambda>z.
     Inr (self\<lparr>step := (step self)\<lparr>current := c\<rparr>,
               zero_grad := (zero_grad self)\<lparr>current := z\<rparr>\<rparr>)))"

definition OptimizerProgress_setstate :: "OptimizerProgress \<Rightarrow> pyval \<Rightarrow> error + OptimizerProgress" where
  "OptimizerProgress_setstate self state =
     and_then (py_getitem state ''step'') (\<lambda>ss.
     and_then (Progress_setstate (step self) ss) (\<lambda>s.
     and_then (py_getitem state ''zero_grad'') (\<lambda>sz.
     and_then (Progress_setstate (zero_grad self) sz) (\<lambda>z.
     Inr (self\<lparr>step := s, zero_grad := z\<rparr>)))))"

definition OptimizerProgress_state_dict :: "OptimizerProgress \<Rightarrow> pyval" where
  "OptimizerProgress_state_dict self =
     PDict [(''step'', Progress_state_dict (step self)),
            (''zero_grad'', Progress_state_dict (zero_grad self))]"

definition OptimizerProgress_from_state_dict :: "pyval \<Rightarrow> error + OptimizerProgress" where
  "OptimizerProgress_from_state_dict state_dict =
     OptimizerProgress_setstate OptimizerProgress_init state_dict"

record OptimizationProgress =
  optimizer_idx :: pyval
  optimizer :: OptimizerProgress
  scheduler :: Progress

definition OptimizationProgress_init :: OptimizationProgress where
  "OptimizationProgress_init =
     \<lparr>optimizer_idx = PInt 0, optimizer = OptimizerProgress_init,
      scheduler = Progress_from_defaults [Started \<mapsto> PNone, Processed \<mapsto> PNone]\<rparr>"

definition optimizer_steps :: "OptimizationProgress \<Rightarrow> pyval" where
  "optimizer_steps self = completed (total (step (optimizer self)))"

definition scheduler_steps :: "OptimizationProgress \<Rightarrow> pyval" where
  "scheduler_steps self = completed (total (scheduler self))"

definition OptimizationProgress_reset_on_epoch ::
    "OptimizationProgress \<Rightarrow> error + OptimizationProgress" where
  "OptimizationProgress_reset_on_epoch self =
     and_then (OptimizerProgress_reset_on_epoch (optimizer self)) (\<lambda>opt.
     and_then (Tracker_reset (current (scheduler self))) (\<lambda>c.
     Inr (self\<lparr>optimizer := opt, scheduler := (scheduler self)\<lparr>current := c\<rparr>\<rparr>)))"

definition OptimizationProgress_setstate ::
    "OptimizationProgress \<Rightarrow> pyval \<Rightarrow> error + OptimizationProgress" where
  "OptimizationProgress_setstate self state =
     and_then (py_getitem state ''optimizer'') (\<lambda>so.
     and_then (OptimizerProgress_setstate (optimizer self) so) (\<lambda>opt.
     and_then (py_getitem state ''scheduler'') (\<lambda>ss.
     and_then (Progress_setstate (scheduler self) ss) (\<lambda>sch.
     and_then (py_getitem state ''optimizer_idx'') (\<lambda>i.
     Inr (self\<lparr>optimizer := opt, scheduler := sch, optimizer_idx := i\<rparr>))))))"

definition OptimizationProgress_state_dict :: "OptimizationProgress \<Rightarrow> pyval" where
  "OptimizationProgress_state_dict self =
     PDict [(''optimizer_idx'', optimizer_idx self),
            (''optimizer'', OptimizerProgress_state_dict (optimizer self)),
            (''scheduler'', Progress_state_dict (scheduler self))]"

definition OptimizationProgress_from_state_dict :: "pyval \<Rightarrow> error + OptimizationProgress" where
  "OptimizationProgress_from_state_dict state_dict =
     OptimizationProgress_setstate OptimizationProgress_init state_dict"

subsection \<open>The loops\<close>

text \<open>
  \<^verbatim>\<open>FitLoopProgress\<close> redeclares the field \<^verbatim>\<open>epoch\<close> of \<^verbatim>\<open>EpochLoopProgress\<close> with the
  subclass \<^verbatim>\<open>TrainingEpochProgress\<close>, so the record takes the class of its epoch as a
  parameter. The methods it inherits call \<^verbatim>\<open>self.reset_on_epoch()\<close> and
  \<^verbatim>\<open>self.epoch.__setstate__\<close>, which Python resolves on the class of the object: the
  inherited method takes the resolved method as its first argument.
\<close>

record 'e EpochLoopProgress =
  epoch :: 'e

definition total_epoch_completed ::
    "('a EpochProgress_scheme, 'b) EpochLoopProgress_scheme \<Rightarrow> pyval" where
  "total_epoch_completed self = completed (total (epoch self))"

definition EpochLoopProgress_reset_on_epoch ::
    "('a EpochProgress_scheme, 'b) EpochLoopProgress_scheme
     \<Rightarrow> error + ('a EpochProgress_scheme, 'b) EpochLoopProgress_scheme" where
  "EpochLoopProgress_reset_on_epoch self =
     and_then (EpochProgress_reset_on_epoch (epoch self)) (\<lambda>e.
     and_then (Tracker_reset (current e)) (\<lambda>c.
     Inr (self\<lparr>epoch := e\<lparr>current := c\<rparr>\<rparr>)))"

definition increment_epoch_completed ::
    "(('a EpochProgress_scheme, 'b) EpochLoopProgress_scheme
       \<Rightarrow> error + ('a EpochProgress_scheme, 'b) EpochLoopProgress_scheme)
     \<Rightarrow> ('a EpochProgress_scheme, 'b) EpochLoopProgress_scheme
     \<Rightarrow> error + ('a EpochProgress_scheme, 'b) EpochLoopProgress_scheme" where
  "increment_epoch_completed reset_on_epoch self =
     and_then (Progress_increment_completed (epoch self)) (\<lambda>e.
     reset_on_epoch (self\<lparr>epoch := e\<rparr>))"

definition EpochLoopProgress_setstate_with ::
    "('e \<Rightarrow> pyval \<Rightarrow> error + 'e)
     \<Rightarrow> ('e, 'b) EpochLoopProgress_scheme \<Rightarrow> pyval \<Rightarrow> error + ('e, 'b) EpochLoopProgress_scheme" where
  "EpochLoopProgress_setstate_with epoch_setstate self state =
     and_then (py_getitem state ''epoch'') (\<lambda>se.
     and_then (epoch_setstate (epoch self) se) (\<lambda>e.
     Inr (self\<lparr>epoch := e\<rparr>)))"

text \<open>\<^verbatim>\<open>EpochLoopProgress\<close> itself: its epoch is an \<^verbatim>\<open>EpochProgress\<close>.\<close>

definition EpochLoopProgress_init :: "EpochProgress EpochLoopProgress" where
  "EpochLoopProgress_init = \<lparr>epoch = EpochProgress_init\<rparr>"

definition EpochLoopProgress_increment_epoch_completed ::
    "EpochProgress EpochLoopProgress \<Rightarrow> error + EpochProgress EpochLoopProgress" where
  "EpochLoopProgress_increment_epoch_completed =
     increment_epoch_completed EpochLoopProgress_reset_on_epoch"

definition EpochLoopProgress_setstate ::
    "EpochProgress EpochLoopProgress \<Rightarrow> pyval \<Rightarrow> error + EpochProgress EpochLoopProgress" where
  "EpochLoopProgress_setstate = EpochLoopProgress_setstate_with EpochProgress_setstate"

definition EpochLoopProgress_state_dict :: "EpochProgress EpochLoopProgress \<Rightarrow> pyval" where
  "EpochLoopProgress_state_dict self = PDict [(''epoch'', EpochProgress_state_dict (epoch self))]"

definition EpochLoopProgress_from_state_dict ::
    "pyval \<Rightarrow> error + EpochProgress EpochLoopProgress" where
  "EpochLoopProgress_from_state_dict state_dict =
     EpochLoopProgress_setstate EpochLoopProgress_init state_dict"

text \<open>The class is spelled \<^verbatim>\<open>TrainingValLoopPorgress\<close> in the source.\<close>

record TrainingValLoopPorgress = "EpochProgress EpochLoopProgress" +
  should_check_val :: pyval

definition TrainingValLoopPorgress_init :: TrainingValLoopPorgress where
  "TrainingValLoopPorgress_init = \<lparr>epoch = EpochProgress_init, should_check_val = PBool False\<rparr>"

definition TrainingValLoopPorgress_increment_epoch_completed ::
    "TrainingValLoopPorgress \<Rightarrow> error + TrainingValLoopPorgress" where
  "TrainingValLoopPorgress_increment_epoch_completed =
     increment_epoch_completed EpochLoopProgress_reset_on_epoch"

definition TrainingValLoopPorgress_setstate ::
    "TrainingValLoopPorgress \<Rightarrow> pyval \<Rightarrow> error + TrainingValLoopPorgress" where
  "TrainingValLoopPorgress_setstate self state =
     and_then (py_getitem state ''epoch'') (\<lambda>se.
     and_then (EpochProgress_setstate (epoch self) se) (\<lambda>e.
     and_then (py_getitem state ''should_check_val'') (\<lambda>b.
     Inr (self\<lparr>epoch := e, should_check_val := b\<rparr>))))"

definition TrainingValLoopPorgress_state_dict :: "TrainingValLoopPorgress \<Rightarrow> pyval" where
  "TrainingValLoopPorgress_state_dict self =
     PDict [(''epoch'', EpochProgress_state_dict (epoch self)),
            (''should_check_val'', should_check_val self)]"

definition TrainingValLoopPorgress_from_state_dict :: "pyval \<Rightarrow> error + TrainingValLoopPorgress" where
  "TrainingValLoopPorgress_from_state_dict state_dict =
     TrainingValLoopPorgress_setstate TrainingValLoopPorgress_init state_dict"

record TrainingEpochProgress = EpochProgress +
  optim :: OptimizationProgress
  val :: TrainingValLoopPorgress

definition TrainingEpochProgress_init :: TrainingEpochProgress where
  "TrainingEpochProgress_init =
     \<lparr>total = Tracker_init Map.empty, current = Tracker_init Map.empty,
      dataloader_idx = PInt 0, batch = Progress_init,
      optim = OptimizationProgress_init, val = TrainingValLoopPorgress_init\<rparr>"

definition TrainingEpochProgress_setstate ::
    "TrainingEpochProgress \<Rightarrow> pyval \<Rightarrow> error + TrainingEpochProgress" where
  "TrainingEpochProgress_setstate self0 state =
     and_then (EpochProgress_setstate self0 state) (\<lambda>self1.
     and_then (py_getitem state ''optim'') (\<lambda>so.
     and_then (OptimizationProgress_setstate (optim self1) so) (\<lambda>opt.
     and_then (py_getitem state ''val'') (\<lambda>sv.
     and_then (TrainingValLoopPorgress_setstate (val self1) sv) (\<lambda>vl.
     Inr (self1\<lparr>optim := opt, val := vl\<rparr>))))))"

definition TrainingEpochProgress_state_dict :: "TrainingEpochProgress \<Rightarrow> pyval" where
  "TrainingEpochProgress_state_dict self =
     PDict [(''total'', Tracker_state_dict (total self)),
            (''current'', Tracker_state_dict (current self)),
            (''dataloader_idx'', dataloader_idx self),
            (''batch'', Progress_state_dict (batch self)),
            (''optim'', OptimizationProgress_state_dict (optim self)),
            (''val'', TrainingValLoopPorgress_state_dict (val self))]"

definition TrainingEpochProgress_from_state_dict :: "pyval \<Rightarrow> error + TrainingEpochProgress" where
  "TrainingEpochProgress_from_state_dict state_dict =
     TrainingEpochProgress_setstate TrainingEpochProgress_init state_dict"

type_synonym FitLoopProgress = "TrainingEpochProgress EpochLoopProgress"

definition FitLoopProgress_init :: FitLoopProgress where
  "FitLoopProgress_init = \<lparr>epoch = TrainingEpochProgress_init\<rparr>"

definition FitLoopProgress_reset_on_epoch :: "FitLoopProgress \<Rightarrow> error + FitLoopProgress" where
  "FitLoopProgress_reset_on_epoch self =
     and_then (EpochProgress_reset_on_epoch (epoch self)) (\<lambda>e.
     and_then (OptimizationProgress_reset_on_epoch (optim e)) (\<lambda>opt.
     Inr (self\<lparr>epoch := e\<lparr>optim := opt\<rparr>\<rparr>)))"

definition total_optimizer_step_completed :: "FitLoopProgress \<Rightarrow> pyval" where
  "total_optimizer_step_completed self =
     completed (total (step (optimizer (optim (epoch self)))))"

definition FitLoopProgress_increment_epoch_completed ::
    "FitLoopProgress \<Rightarrow> error + FitLoopProgress" where
  "FitLoopProgress_increment_epoch_completed =
     increment_epoch_completed FitLoopProgress_reset_on_epoch"

definition FitLoopProgress_setstate :: "FitLoopProgress \<Rightarrow> pyval \<Rightarrow> error + FitLoopProgress" where
  "FitLoopProgress_setstate = EpochLoopProgress_setstate_with TrainingEpochProgress_setstate"

definition FitLoopProgress_state_dict :: "FitLoopProgress \<Rightarrow> pyval" where
  "FitLoopProgress_state_dict self =
     PDict [(''epoch'', TrainingEpochProgress_state_dict (epoch self))]"

definition FitLoopProgress_from_state_dict :: "pyval \<Rightarrow> error + FitLoopProgress" where
  "FitLoopProgress_from_state_dict state_dict = FitLoopProgress_setstate FitLoopProgress_init state_dict"

subsection \<open>Calling a method several times\<close>

fun times_call :: "nat \<Rightarrow> ('a \<Rightarrow> error + 'a) \<Rightarrow> 'a \<Rightarrow> error + 'a" where
  "times_call 0 m self = Inr self"
| "times_call (Suc n) m self = and_then (m self) (times_call n m)"

subsection \<open>Notions used to state the properties\<close>

text \<open>The key under which \<^verbatim>\<open>asdict\<close> stores a stage field.\<close>

fun stage_name :: "stage \<Rightarrow> string" where
  "stage_name Ready = ''ready''"
| "stage_name Started = ''started''"
| "stage_name Processed = ''processed''"
| "stage_name Completed = ''completed''"

text \<open>The method \<^verbatim>\<open>increment_<stage>\<close> of a Progress.\<close>

fun Progress_increment :: "stage \<Rightarrow> 'a Progress_scheme \<Rightarrow> error + 'a Progress_scheme" where
  "Progress_increment Ready = Progress_increment_ready"
| "Progress_increment Started = Progress_increment_started"
| "Progress_increment Processed = Progress_increment_processed"
| "Progress_increment Completed = Progress_increment_completed"

text \<open>A value that the annotation \<^verbatim>\<open>Optional[int]\<close> admits.\<close>

fun is_counter :: "pyval \<Rightarrow> bool" where
  "is_counter PNone = True"
| "is_counter (PInt n) = True"
| "is_counter (PBool b) = False"
| "is_counter (PDict kvs) = False"

text \<open>
  The partition of a Tracker: for each stage, whether the field is disabled. The
  Progress objects of each class are consistent when \<^verbatim>\<open>total\<close> and \<^verbatim>\<open>current\<close> have the
  same partition.
\<close>

definition partition_of :: "Tracker \<Rightarrow> bool \<times> bool \<times> bool \<times> bool" where
  "partition_of t = (ready t = PNone, started t = PNone, processed t = PNone, completed t = PNone)"

definition Progress_consistent :: "'a Progress_scheme \<Rightarrow> bool" where
  "Progress_consistent p = (partition_of (total p) = partition_of (current p))"

definition EpochProgress_consistent :: "'a EpochProgress_scheme \<Rightarrow> bool" where
  "EpochProgress_consistent e = (Progress_consistent e \<and> Progress_consistent (batch e))"

definition OptimizerProgress_consistent :: "OptimizerProgress \<Rightarrow> bool" where
  "OptimizerProgress_consistent opt =
     (Progress_consistent (step opt) \<and> Progress_consistent (zero_grad opt))"

definition OptimizationProgress_consistent :: "OptimizationProgress \<Rightarrow> bool" where
  "OptimizationProgress_consistent opt =
     (OptimizerProgress_consistent (optimizer opt) \<and> Progress_consistent (scheduler opt))"

definition EpochLoopProgress_consistent ::
    "('a EpochProgress_scheme, 'b) EpochLoopProgress_scheme \<Rightarrow> bool" where
  "EpochLoopProgress_consistent l = EpochProgress_consistent (epoch l)"

definition FitLoopProgress_consistent :: "FitLoopProgress \<Rightarrow> bool" where
  "FitLoopProgress_consistent l =
     (EpochProgress_consistent (epoch l)
      \<and> OptimizationProgress_consistent (optim (epoch l))
      \<and> EpochLoopProgress_consistent (val (epoch l)))"

text \<open>A \<^verbatim>\<open>FitLoopProgress\<close> in the middle of its third epoch, for the examples.\<close>

definition FitLoopProgress_midrun :: FitLoopProgress where
  "FitLoopProgress_midrun =
     \<lparr>epoch =
        \<lparr>total = \<lparr>ready = PInt 3, started = PInt 3, processed = PInt 2, completed = PInt 2\<rparr>,
         current = \<lparr>ready = PInt 3, started = PInt 3, processed = PInt 2, completed = PInt 2\<rparr>,
         dataloader_idx = PInt 0,
         batch =
           \<lparr>total = \<lparr>ready = PInt 25, started = PInt 25, processed = PInt 24, completed = PInt 24\<rparr>,
            current = \<lparr>ready = PInt 5, started = PInt 5, processed = PInt 4, completed = PInt 4\<rparr>\<rparr>,
         optim =
           \<lparr>optimizer_idx = PInt 0,
            optimizer =
              \<lparr>step =
                 \<lparr>total = \<lparr>ready = PInt 24, started = PInt 24, processed = PNone, completed = PInt 24\<rparr>,
                  current = \<lparr>ready = PInt 4, started = PInt 4, processed = PNone, completed = PInt 4\<rparr>\<rparr>,
               zero_grad =
                 \<lparr>total = \<lparr>ready = PInt 24, started = PInt 24, processed = PNone, completed = PInt 24\<rparr>,
                  current = \<lparr>ready = PInt 4, started = PInt 4, processed = PNone, completed = PInt 4\<rparr>\<rparr>\<rparr>,
            scheduler =
              \<lparr>total = \<lparr>ready = PInt 2, started = PNone, processed = PNone, completed = PInt 2\<rparr>,
               current = \<lparr>ready = PInt 1, started = PNone, processed = PNone, completed = PInt 1\<rparr>\<rparr>\<rparr>,
         val = TrainingValLoopPorgress_init\<rparr>\<rparr>"

section \<open>Verification\<close>

subsection \<open>Closed forms of the Tracker methods\<close>

lemma and_then_case: "and_then m f = (case m of Inl e \<Rightarrow> Inl e | Inr x \<Rightarrow> f x)"
  by (cases m) simp_all

lemma Tracker_reset_eq:
  "Tracker_reset t =
     Inr \<lparr>ready = (if ready t = PNone then PNone else PInt 0),
          started = (if started t = PNone then PNone else PInt 0),
          processed = (if processed t = PNone then PNone else PInt 0),
          completed = (if completed t = PNone then PNone else PInt 0)\<rparr>"
  by (cases t) (simp add: Tracker_reset_def Tracker_setattr_def)

lemma Tracker_reset_on_restart_eq:
  "Tracker_reset_on_restart t =
     (let v = (if processed t = PNone then completed t else processed t) in
      Inr \<lparr>ready = (if ready t = PNone then PNone else v),
           started = (if started t = PNone then PNone else v),
           processed = (if processed t = PNone then PNone else v),
           completed = (if completed t = PNone then PNone else v)\<rparr>)"
  by (cases t) (simp add: Tracker_reset_on_restart_def Tracker_setattr_def Let_def)

lemma getattr_filled_enabled:
  "getattr t s \<noteq> PNone \<Longrightarrow>
     getattr \<lparr>ready = (if ready t = PNone then PNone else v),
              started = (if started t = PNone then PNone else v),
              processed = (if processed t = PNone then PNone else v),
              completed = (if completed t = PNone then PNone else v)\<rparr> s = v"
  by (cases s) simp_all

lemma getattr_filled_disabled:
  "getattr t s = PNone \<Longrightarrow>
     getattr \<lparr>ready = (if ready t = PNone then PNone else v),
              started = (if started t = PNone then PNone else v),
              processed = (if processed t = PNone then PNone else v),
              completed = (if completed t = PNone then PNone else v)\<rparr> s = PNone"
  by (cases s) simp_all

subsection \<open>The write guard\<close>

text \<open>
  C10. An assignment to a stage field of a Tracker raises exactly when the present value
  of the field is \<^verbatim>\<open>None\<close>, and the error is the attribute error, whatever the value
  assigned. When the field holds a value, assigning \<^verbatim>\<open>None\<close> succeeds and leaves the field
  \<^verbatim>\<open>None\<close>: an enabled field can be disabled through the write interface.
\<close>

theorem Tracker_setattr_raises_iff_none:
  "isl (Tracker_setattr t s v) = (getattr t s = PNone)
   \<and> (Tracker_setattr t s v = Inl AttributeError) = (getattr t s = PNone)
   \<and> (getattr t s \<noteq> PNone \<longrightarrow>
        (\<exists>t'. Tracker_setattr t s PNone = Inr t' \<and> getattr t' s = PNone))"
  by (cases s) (simp_all add: Tracker_setattr_def)

theorem Tracker_setattr_raises_iff_none_witness:
  "getattr \<lparr>ready = PInt 4, started = PInt 4, processed = PInt 3, completed = PInt 3\<rparr> Ready \<noteq> PNone
   \<and> (\<exists>t'. Tracker_setattr \<lparr>ready = PInt 4, started = PInt 4, processed = PInt 3, completed = PInt 3\<rparr>
              Ready PNone = Inr t'
          \<and> getattr t' Ready = PNone)"
  using Tracker_setattr_raises_iff_none
    [of "\<lparr>ready = PInt 4, started = PInt 4, processed = PInt 3, completed = PInt 3\<rparr>" Ready PNone]
  by simp

text \<open>
  C5. Assigning any value to a stage field that is \<^verbatim>\<open>None\<close> raises the attribute error.
  On a new \<^verbatim>\<open>OptimizerProgress\<close> the field \<^verbatim>\<open>step.total.processed\<close> is \<^verbatim>\<open>None\<close>, so
  assigning it any value raises.
\<close>

theorem Tracker_setattr_disabled_raises:
  "(getattr t s = PNone \<longrightarrow> Tracker_setattr t s v = Inl AttributeError)
   \<and> Tracker_setattr (total (step OptimizerProgress_init)) Processed v = Inl AttributeError"
  by (simp add: Tracker_setattr_def OptimizerProgress_init_def Progress_from_defaults_def
      Tracker_init_def)

theorem Tracker_setattr_disabled_raises_witness:
  "getattr \<lparr>ready = PInt 2, started = PNone, processed = PNone, completed = PInt 1\<rparr> Started = PNone
   \<and> Tracker_setattr \<lparr>ready = PInt 2, started = PNone, processed = PNone, completed = PInt 1\<rparr>
        Started (PInt 7) = Inl AttributeError"
  using Tracker_setattr_disabled_raises
    [of "\<lparr>ready = PInt 2, started = PNone, processed = PNone, completed = PInt 1\<rparr>" Started "PInt 7"]
  by simp

subsection \<open>Restart\<close>

text \<open>
  C4. \<^verbatim>\<open>reset_on_restart\<close> returns, and every field that was enabled before the call
  holds afterwards the value that \<^verbatim>\<open>processed\<close> had before the call when \<^verbatim>\<open>processed\<close> is
  enabled, and the value that \<^verbatim>\<open>completed\<close> had before the call when \<^verbatim>\<open>processed\<close> is
  disabled. A disabled field stays disabled.
\<close>

theorem Tracker_reset_on_restart_carries:
  "\<exists>t'. Tracker_reset_on_restart t = Inr t'
     \<and> (\<forall>s. getattr t s \<noteq> PNone \<longrightarrow>
            getattr t' s = (if processed t \<noteq> PNone then processed t else completed t))
     \<and> (\<forall>s. getattr t s = PNone \<longrightarrow> getattr t' s = PNone)"
  by (simp add: Tracker_reset_on_restart_eq Let_def getattr_filled_enabled getattr_filled_disabled)

theorem Tracker_reset_on_restart_carries_witness:
  "getattr \<lparr>ready = PInt 9, started = PInt 8, processed = PNone, completed = PInt 6\<rparr> Ready \<noteq> PNone
   \<and> getattr \<lparr>ready = PInt 9, started = PInt 8, processed = PNone, completed = PInt 6\<rparr> Processed = PNone
   \<and> Tracker_reset_on_restart \<lparr>ready = PInt 9, started = PInt 8, processed = PNone, completed = PInt 6\<rparr>
       = Inr \<lparr>ready = PInt 6, started = PInt 6, processed = PNone, completed = PInt 6\<rparr>"
  using Tracker_reset_on_restart_carries
    [of "\<lparr>ready = PInt 9, started = PInt 8, processed = PNone, completed = PInt 6\<rparr>"]
  by (simp add: Tracker_reset_on_restart_eq Let_def)

subsection \<open>Saving and restoring\<close>

text \<open>
  A saved mapping carries every key that the restore of its class reads, so the restore
  overwrites whatever the receiving object held.
\<close>

lemma getattr_setstate:
  "Tracker_setstate self (PDict kvs) = Inr t \<Longrightarrow>
     getattr t s = dict_update_field kvs (stage_name s) (getattr self s)"
  by (cases s) auto

lemma Tracker_roundtrip: "Tracker_setstate t0 (Tracker_state_dict t) = Inr t"
  by (simp add: Tracker_state_dict_def dict_update_field_def)

lemma Progress_setstate_saved:
  assumes "py_getitem st ''total'' = Inr (Tracker_state_dict a)"
    and "py_getitem st ''current'' = Inr (Tracker_state_dict b)"
  shows "Progress_setstate p0 st = Inr (p0\<lparr>total := a, current := b\<rparr>)"
  by (simp add: Progress_setstate_def assms Tracker_roundtrip)

lemma Progress_roundtrip: "Progress_setstate (p0::Progress) (Progress_state_dict p) = Inr p"
  by (simp add: Progress_setstate_saved Progress_state_dict_def)

lemma EpochProgress_setstate_saved:
  assumes "py_getitem st ''total'' = Inr (Tracker_state_dict a)"
    and "py_getitem st ''current'' = Inr (Tracker_state_dict b)"
    and "py_getitem st ''batch'' = Inr (Progress_state_dict c)"
    and "py_getitem st ''dataloader_idx'' = Inr i"
  shows "EpochProgress_setstate p0 st =
           Inr (p0\<lparr>total := a, current := b, batch := c, dataloader_idx := i\<rparr>)"
  by (simp add: EpochProgress_setstate_def assms Progress_setstate_saved Progress_roundtrip)

lemma EpochProgress_overwritten:
  "(p0::EpochProgress)\<lparr>total := total p, current := current p, batch := batch p,
      dataloader_idx := dataloader_idx p\<rparr> = p"
  by (cases p0, cases p) simp

lemma EpochProgress_roundtrip:
  "EpochProgress_setstate (p0::EpochProgress) (EpochProgress_state_dict p) = Inr p"
  by (simp add: EpochProgress_setstate_saved EpochProgress_state_dict_def EpochProgress_overwritten)

lemma OptimizerProgress_roundtrip:
  "OptimizerProgress_setstate p0 (OptimizerProgress_state_dict p) = Inr p"
  by (simp add: OptimizerProgress_setstate_def OptimizerProgress_state_dict_def Progress_roundtrip)

lemma OptimizationProgress_roundtrip:
  "OptimizationProgress_setstate p0 (OptimizationProgress_state_dict p) = Inr p"
  by (simp add: OptimizationProgress_setstate_def OptimizationProgress_state_dict_def
      Progress_roundtrip OptimizerProgress_roundtrip)

lemma EpochLoopProgress_roundtrip:
  "EpochLoopProgress_setstate p0 (EpochLoopProgress_state_dict p) = Inr p"
  by (simp add: EpochLoopProgress_setstate_def EpochLoopProgress_setstate_with_def
      EpochLoopProgress_state_dict_def EpochProgress_roundtrip)

lemma TrainingValLoopPorgress_roundtrip:
  "TrainingValLoopPorgress_setstate p0 (TrainingValLoopPorgress_state_dict p) = Inr p"
  by (simp add: TrainingValLoopPorgress_setstate_def TrainingValLoopPorgress_state_dict_def
      EpochProgress_roundtrip)

lemma TrainingEpochProgress_overwritten:
  "(p0::TrainingEpochProgress)\<lparr>total := total p, current := current p, batch := batch p,
      dataloader_idx := dataloader_idx p, optim := optim p, val := val p\<rparr> = p"
  by (cases p0, cases p) simp

lemma TrainingEpochProgress_roundtrip:
  "TrainingEpochProgress_setstate p0 (TrainingEpochProgress_state_dict p) = Inr p"
  by (simp add: TrainingEpochProgress_setstate_def TrainingEpochProgress_state_dict_def
      EpochProgress_setstate_saved OptimizationProgress_roundtrip TrainingValLoopPorgress_roundtrip
      TrainingEpochProgress_overwritten)

lemma FitLoopProgress_roundtrip:
  "FitLoopProgress_setstate p0 (FitLoopProgress_state_dict p) = Inr p"
  by (simp add: FitLoopProgress_setstate_def EpochLoopProgress_setstate_with_def
      FitLoopProgress_state_dict_def TrainingEpochProgress_roundtrip)

text \<open>
  C1. For the Tracker and each of the eight composite classes, \<^verbatim>\<open>from_state_dict\<close> applied
  to the \<^verbatim>\<open>state_dict\<close> of an object returns an object with the same fields all the way
  down, hence the same counters and the same values of \<^verbatim>\<open>optimizer_steps\<close>,
  \<^verbatim>\<open>scheduler_steps\<close>, \<^verbatim>\<open>total_epoch_completed\<close> and \<^verbatim>\<open>total_optimizer_step_completed\<close>.
\<close>

theorem from_state_dict_state_dict:
  "Tracker_from_state_dict (Tracker_state_dict t) = Inr t
   \<and> Progress_from_state_dict (Progress_state_dict p) = Inr p
   \<and> EpochProgress_from_state_dict (EpochProgress_state_dict ep) = Inr ep
   \<and> OptimizerProgress_from_state_dict (OptimizerProgress_state_dict op) = Inr op
   \<and> OptimizationProgress_from_state_dict (OptimizationProgress_state_dict opt) = Inr opt
   \<and> EpochLoopProgress_from_state_dict (EpochLoopProgress_state_dict el) = Inr el
   \<and> TrainingValLoopPorgress_from_state_dict (TrainingValLoopPorgress_state_dict vl) = Inr vl
   \<and> TrainingEpochProgress_from_state_dict (TrainingEpochProgress_state_dict te) = Inr te
   \<and> FitLoopProgress_from_state_dict (FitLoopProgress_state_dict fl) = Inr fl"
  by (simp add: Tracker_from_state_dict_def Progress_from_state_dict_def
      EpochProgress_from_state_dict_def OptimizerProgress_from_state_dict_def
      OptimizationProgress_from_state_dict_def EpochLoopProgress_from_state_dict_def
      TrainingValLoopPorgress_from_state_dict_def TrainingEpochProgress_from_state_dict_def
      FitLoopProgress_from_state_dict_def
      Tracker_roundtrip Progress_roundtrip EpochProgress_roundtrip OptimizerProgress_roundtrip
      OptimizationProgress_roundtrip EpochLoopProgress_roundtrip TrainingValLoopPorgress_roundtrip
      TrainingEpochProgress_roundtrip FitLoopProgress_roundtrip)

subsection \<open>Restoring from a mapping that lacks a key\<close>

lemma Progress_setstate_missing:
  "map_of kvs ''total'' = None \<or> map_of kvs ''current'' = None \<Longrightarrow>
     isl (Progress_setstate self (PDict kvs))"
  by (auto simp: Progress_setstate_def and_then_case split: sum.splits option.splits)

lemma EpochProgress_setstate_missing:
  "map_of kvs ''total'' = None \<or> map_of kvs ''current'' = None
   \<or> map_of kvs ''batch'' = None \<or> map_of kvs ''dataloader_idx'' = None \<Longrightarrow>
     isl (EpochProgress_setstate self (PDict kvs))"
  using Progress_setstate_missing [of kvs self]
  by (auto simp: EpochProgress_setstate_def and_then_case split: sum.splits option.splits)

lemma OptimizerProgress_setstate_missing:
  "map_of kvs ''step'' = None \<or> map_of kvs ''zero_grad'' = None \<Longrightarrow>
     isl (OptimizerProgress_setstate self (PDict kvs))"
  by (auto simp: OptimizerProgress_setstate_def and_then_case split: sum.splits option.splits)

lemma OptimizationProgress_setstate_missing:
  "map_of kvs ''optimizer'' = None \<or> map_of kvs ''scheduler'' = None
   \<or> map_of kvs ''optimizer_idx'' = None \<Longrightarrow>
     isl (OptimizationProgress_setstate self (PDict kvs))"
  by (auto simp: OptimizationProgress_setstate_def and_then_case split: sum.splits option.splits)

lemma EpochLoopProgress_setstate_with_missing:
  "map_of kvs ''epoch'' = None \<Longrightarrow>
     isl (EpochLoopProgress_setstate_with epoch_setstate self (PDict kvs))"
  by (simp add: EpochLoopProgress_setstate_with_def)

lemma TrainingValLoopPorgress_setstate_missing:
  "map_of kvs ''epoch'' = None \<or> map_of kvs ''should_check_val'' = None \<Longrightarrow>
     isl (TrainingValLoopPorgress_setstate self (PDict kvs))"
  by (auto simp: TrainingValLoopPorgress_setstate_def and_then_case split: sum.splits option.splits)

lemma TrainingEpochProgress_setstate_missing:
  "map_of kvs ''total'' = None \<or> map_of kvs ''current'' = None
   \<or> map_of kvs ''batch'' = None \<or> map_of kvs ''dataloader_idx'' = None
   \<or> map_of kvs ''optim'' = None \<or> map_of kvs ''val'' = None \<Longrightarrow>
     isl (TrainingEpochProgress_setstate self (PDict kvs))"
  using EpochProgress_setstate_missing [of kvs self]
  by (auto simp: TrainingEpochProgress_setstate_def and_then_case split: sum.splits option.splits)

text \<open>
  C3, as stated, fails on the code: restoring a Tracker from a mapping that lacks
  \<^verbatim>\<open>completed\<close> raises nothing and returns a Tracker whose \<^verbatim>\<open>completed\<close> is the default.
\<close>

theorem Tracker_restore_missing_field_counterexample:
  "Tracker_from_state_dict (PDict [(''ready'', PInt 3), (''started'', PInt 3), (''processed'', PInt 3)])
     = Inr \<lparr>ready = PInt 3, started = PInt 3, processed = PInt 3, completed = PInt 0\<rparr>"
  by (simp add: Tracker_from_state_dict_def Tracker_init_def dict_update_field_def)

text \<open>
  C3, amended. The restore of a composite class raises when the mapping lacks a key that
  its \<^verbatim>\<open>__setstate__\<close> subscripts: \<^verbatim>\<open>total\<close>, \<^verbatim>\<open>current\<close> for Progress; these and \<^verbatim>\<open>batch\<close>,
  \<^verbatim>\<open>dataloader_idx\<close> for EpochProgress; \<^verbatim>\<open>step\<close>, \<^verbatim>\<open>zero_grad\<close> for OptimizerProgress;
  \<^verbatim>\<open>optimizer\<close>, \<^verbatim>\<open>scheduler\<close>, \<^verbatim>\<open>optimizer_idx\<close> for OptimizationProgress; \<^verbatim>\<open>epoch\<close> for
  EpochLoopProgress and FitLoopProgress; \<^verbatim>\<open>epoch\<close>, \<^verbatim>\<open>should_check_val\<close> for
  TrainingValLoopPorgress; the keys of EpochProgress and \<^verbatim>\<open>optim\<close>, \<^verbatim>\<open>val\<close> for
  TrainingEpochProgress. The restore of a Tracker raises on no mapping: a stage field
  without a key keeps the value the receiving Tracker had.
\<close>

theorem restore_missing_key:
  "(map_of kvs ''total'' = None \<or> map_of kvs ''current'' = None \<longrightarrow>
      isl (Progress_setstate p (PDict kvs)))
   \<and> (map_of kvs ''total'' = None \<or> map_of kvs ''current'' = None
        \<or> map_of kvs ''batch'' = None \<or> map_of kvs ''dataloader_idx'' = None \<longrightarrow>
      isl (EpochProgress_setstate ep (PDict kvs)))
   \<and> (map_of kvs ''step'' = None \<or> map_of kvs ''zero_grad'' = None \<longrightarrow>
      isl (OptimizerProgress_setstate op (PDict kvs)))
   \<and> (map_of kvs ''optimizer'' = None \<or> map_of kvs ''scheduler'' = None
        \<or> map_of kvs ''optimizer_idx'' = None \<longrightarrow>
      isl (OptimizationProgress_setstate opt (PDict kvs)))
   \<and> (map_of kvs ''epoch'' = None \<longrightarrow>
      isl (EpochLoopProgress_setstate el (PDict kvs)) \<and> isl (FitLoopProgress_setstate fl (PDict kvs)))
   \<and> (map_of kvs ''epoch'' = None \<or> map_of kvs ''should_check_val'' = None \<longrightarrow>
      isl (TrainingValLoopPorgress_setstate vl (PDict kvs)))
   \<and> (map_of kvs ''total'' = None \<or> map_of kvs ''current'' = None
        \<or> map_of kvs ''batch'' = None \<or> map_of kvs ''dataloader_idx'' = None
        \<or> map_of kvs ''optim'' = None \<or> map_of kvs ''val'' = None \<longrightarrow>
      isl (TrainingEpochProgress_setstate te (PDict kvs)))
   \<and> (\<exists>t'. Tracker_setstate t (PDict kvs) = Inr t'
          \<and> (\<forall>s. map_of kvs (stage_name s) = None \<longrightarrow> getattr t' s = getattr t s))"
  using Progress_setstate_missing [of kvs p] EpochProgress_setstate_missing [of kvs ep]
    OptimizerProgress_setstate_missing [of kvs op] OptimizationProgress_setstate_missing [of kvs opt]
    EpochLoopProgress_setstate_with_missing [of kvs EpochProgress_setstate el]
    EpochLoopProgress_setstate_with_missing [of kvs TrainingEpochProgress_setstate fl]
    TrainingValLoopPorgress_setstate_missing [of kvs vl]
    TrainingEpochProgress_setstate_missing [of kvs te]
    getattr_setstate [of t kvs]
  by (simp add: EpochLoopProgress_setstate_def FitLoopProgress_setstate_def dict_update_field_def)

theorem restore_missing_key_witness:
  "map_of [(''total'', Tracker_state_dict (Tracker_init Map.empty))] ''current'' = None
   \<and> isl (Progress_setstate Progress_init
            (PDict [(''total'', Tracker_state_dict (Tracker_init Map.empty))]))
   \<and> map_of [(''ready'', PInt 1)] (stage_name Completed) = None
   \<and> Tracker_setstate \<lparr>ready = PInt 0, started = PInt 0, processed = PInt 0, completed = PInt 5\<rparr>
        (PDict [(''ready'', PInt 1)])
       = Inr \<lparr>ready = PInt 1, started = PInt 0, processed = PInt 0, completed = PInt 5\<rparr>"
  using restore_missing_key
      [where kvs = "[(''total'', Tracker_state_dict (Tracker_init Map.empty))]"
        and p = Progress_init and ep = EpochProgress_init and op = OptimizerProgress_init
        and opt = OptimizationProgress_init and el = EpochLoopProgress_init
        and fl = FitLoopProgress_init and vl = TrainingValLoopPorgress_init
        and te = TrainingEpochProgress_init and t = "Tracker_init Map.empty"]
    restore_missing_key
      [where kvs = "[(''ready'', PInt 1)]"
        and p = Progress_init and ep = EpochProgress_init and op = OptimizerProgress_init
        and opt = OptimizationProgress_init and el = EpochLoopProgress_init
        and fl = FitLoopProgress_init and vl = TrainingValLoopPorgress_init
        and te = TrainingEpochProgress_init
        and t = "\<lparr>ready = PInt 0, started = PInt 0, processed = PInt 0, completed = PInt 5\<rparr>"]
  by (simp add: dict_update_field_def)

subsection \<open>The guard and the internal writes\<close>

text \<open>
  C2, as stated, fails on the code: the restore stores 5 into a \<^verbatim>\<open>processed\<close> field that
  is disabled, and nothing is raised.
\<close>

theorem Tracker_setstate_disabled_counterexample:
  "Tracker_setstate \<lparr>ready = PInt 2, started = PInt 2, processed = PNone, completed = PInt 1\<rparr>
     (PDict [(''ready'', PInt 2), (''started'', PInt 2), (''processed'', PInt 5), (''completed'', PInt 1)])
     = Inr \<lparr>ready = PInt 2, started = PInt 2, processed = PInt 5, completed = PInt 1\<rparr>"
  by (simp add: dict_update_field_def)

text \<open>
  C2, amended. An assignment through \<^verbatim>\<open>__setattr__\<close> to a field that is \<^verbatim>\<open>None\<close> raises.
  \<^verbatim>\<open>reset\<close> and \<^verbatim>\<open>reset_on_restart\<close> test each field before they assign it, so they
  return and leave every \<^verbatim>\<open>None\<close> field \<^verbatim>\<open>None\<close>. The restore does not pass through the
  guard: it returns on every mapping and each stage field that has a key holds the
  mapping's value afterwards, whether the field was \<^verbatim>\<open>None\<close> or not.
\<close>

theorem guard_on_internal_writes:
  "(getattr t s = PNone \<longrightarrow> Tracker_setattr t s v = Inl AttributeError)
   \<and> (\<exists>t'. Tracker_reset t = Inr t' \<and> (\<forall>s. getattr t s = PNone \<longrightarrow> getattr t' s = PNone))
   \<and> (\<exists>t'. Tracker_reset_on_restart t = Inr t'
          \<and> (\<forall>s. getattr t s = PNone \<longrightarrow> getattr t' s = PNone))
   \<and> (\<exists>t'. Tracker_setstate t (PDict kvs) = Inr t'
          \<and> (\<forall>s w. map_of kvs (stage_name s) = Some w \<longrightarrow> getattr t' s = w))"
  using getattr_setstate [of t kvs]
  by (simp add: Tracker_setattr_def Tracker_reset_eq Tracker_reset_on_restart_eq Let_def
      getattr_filled_disabled dict_update_field_def)

theorem guard_on_internal_writes_witness:
  "getattr \<lparr>ready = PInt 2, started = PInt 2, processed = PNone, completed = PInt 1\<rparr> Processed = PNone
   \<and> Tracker_setattr \<lparr>ready = PInt 2, started = PInt 2, processed = PNone, completed = PInt 1\<rparr>
        Processed (PInt 0) = Inl AttributeError
   \<and> Tracker_reset \<lparr>ready = PInt 2, started = PInt 2, processed = PNone, completed = PInt 1\<rparr>
       = Inr \<lparr>ready = PInt 0, started = PInt 0, processed = PNone, completed = PInt 0\<rparr>
   \<and> Tracker_reset_on_restart \<lparr>ready = PInt 2, started = PInt 2, processed = PNone, completed = PInt 1\<rparr>
       = Inr \<lparr>ready = PInt 1, started = PInt 1, processed = PNone, completed = PInt 1\<rparr>
   \<and> map_of [(''processed'', PInt 5)] (stage_name Processed) = Some (PInt 5)
   \<and> Tracker_setstate \<lparr>ready = PInt 2, started = PInt 2, processed = PNone, completed = PInt 1\<rparr>
        (PDict [(''processed'', PInt 5)])
       = Inr \<lparr>ready = PInt 2, started = PInt 2, processed = PInt 5, completed = PInt 1\<rparr>"
  using guard_on_internal_writes
    [where t = "\<lparr>ready = PInt 2, started = PInt 2, processed = PNone, completed = PInt 1\<rparr>"
      and s = Processed and v = "PInt 0" and kvs = "[(''processed'', PInt 5)]"]
  by (simp add: Tracker_reset_eq Tracker_reset_on_restart_eq Let_def dict_update_field_def)

subsection \<open>Increments\<close>

lemma getattr_object_setattr: "getattr (object_setattr t s v) s' = (if s' = s then v else getattr t s')"
  by (cases s; cases s') simp_all

lemma object_setattr_twice: "object_setattr (object_setattr t s v) s w = object_setattr t s w"
  by (cases s) simp_all

lemma object_setattr_same: "getattr t s = v \<Longrightarrow> object_setattr t s v = t"
  by (cases s) auto

lemma Progress_increment_enabled:
  assumes "getattr (total p) s = PInt a" and "getattr (current p) s = PInt b"
  shows "Progress_increment s p =
           Inr (p\<lparr>total := object_setattr (total p) s (PInt (a + 1)),
                   current := object_setattr (current p) s (PInt (b + 1))\<rparr>)"
  using assms
  by (cases s)
    (simp_all add: Progress_increment_ready_def Progress_increment_started_def
      Progress_increment_processed_def Progress_increment_completed_def Tracker_setattr_def)

lemma Progress_increment_disabled:
  assumes "getattr (total p) s = PNone \<or> getattr (current p) s = PNone"
  shows "Progress_increment s p = Inr p"
  using assms
  by (cases s)
    (auto simp: Progress_increment_ready_def Progress_increment_started_def
      Progress_increment_processed_def Progress_increment_completed_def)

lemma times_call_increment_enabled:
  "getattr (total p) s = PInt a \<Longrightarrow> getattr (current p) s = PInt b \<Longrightarrow>
     times_call n (Progress_increment s) p =
       Inr (p\<lparr>total := object_setattr (total p) s (PInt (a + int n)),
               current := object_setattr (current p) s (PInt (b + int n))\<rparr>)"
proof (induction n arbitrary: p a b)
  case 0
  then show ?case by (simp add: object_setattr_same)
next
  case (Suc n)
  let ?q = "p\<lparr>total := object_setattr (total p) s (PInt (a + 1)),
               current := object_setattr (current p) s (PInt (b + 1))\<rparr>"
  have one: "Progress_increment s p = Inr ?q"
    using Suc.prems by (rule Progress_increment_enabled)
  have "times_call n (Progress_increment s) ?q =
          Inr (?q\<lparr>total := object_setattr (total ?q) s (PInt (a + 1 + int n)),
                  current := object_setattr (current ?q) s (PInt (b + 1 + int n))\<rparr>)"
    by (rule Suc.IH) (simp_all add: getattr_object_setattr)
  then show ?case
    by (simp add: one object_setattr_twice add.commute add.left_commute)
qed

lemma times_call_increment_disabled:
  "getattr (total p) s = PNone \<or> getattr (current p) s = PNone \<Longrightarrow>
     times_call n (Progress_increment s) p = Inr p"
  by (induction n) (simp_all add: Progress_increment_disabled)

text \<open>
  C6. Let \<open>s\<close> be a stage. When the field \<open>s\<close> holds an integer on \<^verbatim>\<open>total\<close> and on
  \<^verbatim>\<open>current\<close>, calling \<^verbatim>\<open>increment_<s>\<close> \<open>n\<close> times returns, both fields have grown by
  exactly \<open>n\<close>, and nothing else in the object has changed. When the field is \<^verbatim>\<open>None\<close> on
  either Tracker, the \<open>n\<close> calls return the object unchanged and raise nothing.
\<close>

theorem Progress_increment_n_times:
  "(getattr (total p) s = PInt a \<and> getattr (current p) s = PInt b \<longrightarrow>
      (\<exists>p'. times_call n (Progress_increment s) p = Inr p'
         \<and> getattr (total p') s = PInt (a + int n)
         \<and> getattr (current p') s = PInt (b + int n)
         \<and> p' = p\<lparr>total := object_setattr (total p) s (PInt (a + int n)),
                   current := object_setattr (current p) s (PInt (b + int n))\<rparr>))
   \<and> (getattr (total p) s = PNone \<or> getattr (current p) s = PNone \<longrightarrow>
        times_call n (Progress_increment s) p = Inr p)"
  by (simp add: times_call_increment_enabled times_call_increment_disabled getattr_object_setattr)

theorem Progress_increment_n_times_witness:
  "getattr (total Progress_init) Completed = PInt 0
   \<and> getattr (current Progress_init) Completed = PInt 0
   \<and> times_call 3 Progress_increment_completed Progress_init
       = Inr \<lparr>total = \<lparr>ready = PInt 0, started = PInt 0, processed = PInt 0, completed = PInt 3\<rparr>,
              current = \<lparr>ready = PInt 0, started = PInt 0, processed = PInt 0, completed = PInt 3\<rparr>\<rparr>
   \<and> getattr (total (step OptimizerProgress_init)) Processed = PNone
   \<and> times_call 3 Progress_increment_processed (step OptimizerProgress_init)
       = Inr (step OptimizerProgress_init)"
  using Progress_increment_n_times [where p = Progress_init and s = Completed and a = 0 and b = 0
      and n = 3]
    Progress_increment_n_times [where p = "step OptimizerProgress_init" and s = Processed
      and a = 0 and b = 0 and n = 3]
  by (simp add: Progress_init_def Tracker_init_def OptimizerProgress_init_def
      Progress_from_defaults_def)

subsection \<open>Resetting at the end of an epoch\<close>

text \<open>
  The record package leaves the selectors and updates of \<^verbatim>\<open>batch\<close> against those of the
  inherited fields to be proved by hand.
\<close>

lemma EpochProgress_batch_other [simp]:
  "total ((e::'a EpochProgress_scheme)\<lparr>batch := b\<rparr>) = total e"
  "current ((e::'a EpochProgress_scheme)\<lparr>batch := b\<rparr>) = current e"
  "batch ((e::'a EpochProgress_scheme)\<lparr>total := t\<rparr>) = batch e"
  "batch ((e::'a EpochProgress_scheme)\<lparr>current := t\<rparr>) = batch e"
  by (cases e, simp)+

lemma Tracker_reset_returns:
  "\<exists>t'. Tracker_reset t = Inr t'
     \<and> (\<forall>s. getattr t' s = (if getattr t s = PNone then PNone else PInt 0))
     \<and> partition_of t' = partition_of t"
proof -
  have "getattr \<lparr>ready = (if ready t = PNone then PNone else PInt 0),
          started = (if started t = PNone then PNone else PInt 0),
          processed = (if processed t = PNone then PNone else PInt 0),
          completed = (if completed t = PNone then PNone else PInt 0)\<rparr> s
        = (if getattr t s = PNone then PNone else PInt 0)" for s
    by (cases s) simp_all
  then show ?thesis
    by (simp add: Tracker_reset_eq partition_of_def)
qed

lemma FitLoopProgress_reset_on_epoch_returns:
  "\<exists>l'. FitLoopProgress_reset_on_epoch l = Inr l'
     \<and> current (epoch l') = current (epoch l)
     \<and> total (epoch l') = total (epoch l)
     \<and> (\<forall>s. getattr (current (scheduler (optim (epoch l)))) s \<noteq> PNone \<longrightarrow>
            getattr (current (scheduler (optim (epoch l')))) s = PInt 0)
     \<and> (\<forall>s. getattr (current (step (optimizer (optim (epoch l))))) s \<noteq> PNone \<longrightarrow>
            getattr (current (step (optimizer (optim (epoch l'))))) s = PInt 0)
     \<and> (\<forall>s. getattr (current (zero_grad (optimizer (optim (epoch l))))) s \<noteq> PNone \<longrightarrow>
            getattr (current (zero_grad (optimizer (optim (epoch l'))))) s = PInt 0)
     \<and> (\<forall>s. getattr (current (batch (epoch l))) s \<noteq> PNone \<longrightarrow>
            getattr (current (batch (epoch l'))) s = PInt 0)"
proof -
  obtain cb where cb: "Tracker_reset (current (batch (epoch l))) = Inr cb"
      "\<forall>s. getattr cb s = (if getattr (current (batch (epoch l))) s = PNone then PNone else PInt 0)"
    using Tracker_reset_returns by blast
  obtain cs where cs: "Tracker_reset (current (step (optimizer (optim (epoch l))))) = Inr cs"
      "\<forall>s. getattr cs s =
         (if getattr (current (step (optimizer (optim (epoch l))))) s = PNone then PNone else PInt 0)"
    using Tracker_reset_returns by blast
  obtain cz where cz: "Tracker_reset (current (zero_grad (optimizer (optim (epoch l))))) = Inr cz"
      "\<forall>s. getattr cz s =
         (if getattr (current (zero_grad (optimizer (optim (epoch l))))) s = PNone then PNone else PInt 0)"
    using Tracker_reset_returns by blast
  obtain cc where cc: "Tracker_reset (current (scheduler (optim (epoch l)))) = Inr cc"
      "\<forall>s. getattr cc s =
         (if getattr (current (scheduler (optim (epoch l)))) s = PNone then PNone else PInt 0)"
    using Tracker_reset_returns by blast
  show ?thesis
    by (simp add: FitLoopProgress_reset_on_epoch_def EpochProgress_reset_on_epoch_def
        OptimizationProgress_reset_on_epoch_def OptimizerProgress_reset_on_epoch_def cb cs cz cc)
qed

text \<open>
  C7. \<^verbatim>\<open>FitLoopProgress.reset_on_epoch\<close> returns. It leaves \<^verbatim>\<open>epoch.current\<close>, hence
  \<^verbatim>\<open>epoch.current.completed\<close>, and \<^verbatim>\<open>epoch.total\<close> as they were, and every enabled field of
  \<^verbatim>\<open>epoch.optim.scheduler.current\<close>, \<^verbatim>\<open>epoch.optim.optimizer.step.current\<close>,
  \<^verbatim>\<open>epoch.optim.optimizer.zero_grad.current\<close> and \<^verbatim>\<open>epoch.batch.current\<close> is 0 afterwards.
\<close>

theorem FitLoopProgress_reset_on_epoch_frame:
  "\<exists>l'. FitLoopProgress_reset_on_epoch l = Inr l'
     \<and> current (epoch l') = current (epoch l)
     \<and> total (epoch l') = total (epoch l)
     \<and> (\<forall>s. getattr (current (scheduler (optim (epoch l)))) s \<noteq> PNone \<longrightarrow>
            getattr (current (scheduler (optim (epoch l')))) s = PInt 0)
     \<and> (\<forall>s. getattr (current (step (optimizer (optim (epoch l))))) s \<noteq> PNone \<longrightarrow>
            getattr (current (step (optimizer (optim (epoch l'))))) s = PInt 0)
     \<and> (\<forall>s. getattr (current (zero_grad (optimizer (optim (epoch l))))) s \<noteq> PNone \<longrightarrow>
            getattr (current (zero_grad (optimizer (optim (epoch l'))))) s = PInt 0)
     \<and> (\<forall>s. getattr (current (batch (epoch l))) s \<noteq> PNone \<longrightarrow>
            getattr (current (batch (epoch l'))) s = PInt 0)"
  by (rule FitLoopProgress_reset_on_epoch_returns)

theorem FitLoopProgress_reset_on_epoch_frame_witness:
  "getattr (current (batch (epoch FitLoopProgress_midrun))) Ready \<noteq> PNone
   \<and> getattr (current (scheduler (optim (epoch FitLoopProgress_midrun)))) Completed \<noteq> PNone
   \<and> (\<exists>l'. FitLoopProgress_reset_on_epoch FitLoopProgress_midrun = Inr l'
          \<and> completed (current (epoch l')) = PInt 2
          \<and> getattr (current (batch (epoch l'))) Ready = PInt 0
          \<and> getattr (current (scheduler (optim (epoch l')))) Completed = PInt 0)"
proof -
  have b: "getattr (current (batch (epoch FitLoopProgress_midrun))) Ready \<noteq> PNone"
    and c: "getattr (current (scheduler (optim (epoch FitLoopProgress_midrun)))) Completed \<noteq> PNone"
    and e: "completed (current (epoch FitLoopProgress_midrun)) = PInt 2"
    by (simp_all add: FitLoopProgress_midrun_def)
  obtain l' where r: "FitLoopProgress_reset_on_epoch FitLoopProgress_midrun = Inr l'"
    and k: "current (epoch l') = current (epoch FitLoopProgress_midrun)"
    and sc: "\<forall>s. getattr (current (scheduler (optim (epoch FitLoopProgress_midrun)))) s \<noteq> PNone \<longrightarrow>
               getattr (current (scheduler (optim (epoch l')))) s = PInt 0"
    and bt: "\<forall>s. getattr (current (batch (epoch FitLoopProgress_midrun))) s \<noteq> PNone \<longrightarrow>
               getattr (current (batch (epoch l'))) s = PInt 0"
    using FitLoopProgress_reset_on_epoch_frame [of FitLoopProgress_midrun] by blast
  have "getattr (current (batch (epoch l'))) Ready = PInt 0"
    using bt b by blast
  moreover have "getattr (current (scheduler (optim (epoch l')))) Completed = PInt 0"
    using sc c by blast
  moreover have "completed (current (epoch l')) = PInt 2"
    using k e by simp
  ultimately show ?thesis
    using b c r by blast
qed

subsection \<open>Completing an epoch\<close>

lemma EpochLoopProgress_reset_on_epoch_returns:
  "\<exists>l'. EpochLoopProgress_reset_on_epoch l = Inr l'
     \<and> total (epoch l') = total (epoch l)
     \<and> (\<forall>s. getattr (current (epoch l')) s
              = (if getattr (current (epoch l)) s = PNone then PNone else PInt 0))
     \<and> (\<forall>s. getattr (current (batch (epoch l'))) s
              = (if getattr (current (batch (epoch l))) s = PNone then PNone else PInt 0))"
proof -
  obtain cb where cb: "Tracker_reset (current (batch (epoch l))) = Inr cb"
      "\<forall>s. getattr cb s = (if getattr (current (batch (epoch l))) s = PNone then PNone else PInt 0)"
    using Tracker_reset_returns by blast
  obtain ce where ce: "Tracker_reset (current (epoch l)) = Inr ce"
      "\<forall>s. getattr ce s = (if getattr (current (epoch l)) s = PNone then PNone else PInt 0)"
    using Tracker_reset_returns by blast
  show ?thesis
    by (simp add: EpochLoopProgress_reset_on_epoch_def EpochProgress_reset_on_epoch_def cb ce)
qed

lemma Progress_increment_completed_enabled:
  assumes "completed (total p) = PInt a" and "completed (current p) = PInt b"
  shows "Progress_increment_completed p =
           Inr (p\<lparr>total := (total p)\<lparr>completed := PInt (a + 1)\<rparr>,
                   current := (current p)\<lparr>completed := PInt (b + 1)\<rparr>\<rparr>)"
  using Progress_increment_enabled [of p Completed a b] assms by simp

lemma FitLoopProgress_increment_epoch_completed_returns:
  assumes "completed (total (epoch l)) = PInt a" and "completed (current (epoch l)) = PInt b"
  shows "\<exists>l'. FitLoopProgress_increment_epoch_completed l = Inr l'
           \<and> completed (total (epoch l')) = PInt (a + 1)
           \<and> completed (current (epoch l')) = PInt (b + 1)
           \<and> (\<forall>s. getattr (current (batch (epoch l))) s \<noteq> PNone \<longrightarrow>
                  getattr (current (batch (epoch l'))) s = PInt 0)"
proof -
  let ?e = "(epoch l)\<lparr>total := (total (epoch l))\<lparr>completed := PInt (a + 1)\<rparr>,
                       current := (current (epoch l))\<lparr>completed := PInt (b + 1)\<rparr>\<rparr>"
  have inc: "Progress_increment_completed (epoch l) = Inr ?e"
    using assms by (rule Progress_increment_completed_enabled)
  obtain l' where l': "FitLoopProgress_reset_on_epoch (l\<lparr>epoch := ?e\<rparr>) = Inr l'"
      "current (epoch l') = current (epoch (l\<lparr>epoch := ?e\<rparr>))"
      "total (epoch l') = total (epoch (l\<lparr>epoch := ?e\<rparr>))"
      "\<forall>s. getattr (current (batch (epoch (l\<lparr>epoch := ?e\<rparr>)))) s \<noteq> PNone \<longrightarrow>
            getattr (current (batch (epoch l'))) s = PInt 0"
    using FitLoopProgress_reset_on_epoch_returns [of "l\<lparr>epoch := ?e\<rparr>"] by blast
  from l'(4) have "\<forall>s. getattr (current (batch (epoch l))) s \<noteq> PNone \<longrightarrow>
      getattr (current (batch (epoch l'))) s = PInt 0"
    by simp
  then show ?thesis
    using l'(1,2,3)
    by (simp add: FitLoopProgress_increment_epoch_completed_def increment_epoch_completed_def inc)
qed

lemma EpochLoopProgress_increment_epoch_completed_returns:
  assumes "completed (total (epoch l)) = PInt a" and "completed (current (epoch l)) = PInt b"
  shows "\<exists>l'. increment_epoch_completed EpochLoopProgress_reset_on_epoch l = Inr l'
           \<and> completed (total (epoch l')) = PInt (a + 1)
           \<and> completed (current (epoch l')) = PInt 0
           \<and> (\<forall>s. getattr (current (epoch l)) s \<noteq> PNone \<longrightarrow>
                  getattr (current (epoch l')) s = PInt 0)
           \<and> (\<forall>s. getattr (current (batch (epoch l))) s \<noteq> PNone \<longrightarrow>
                  getattr (current (batch (epoch l'))) s = PInt 0)"
proof -
  let ?e = "(epoch l)\<lparr>total := (total (epoch l))\<lparr>completed := PInt (a + 1)\<rparr>,
                       current := (current (epoch l))\<lparr>completed := PInt (b + 1)\<rparr>\<rparr>"
  have inc: "Progress_increment_completed (epoch l) = Inr ?e"
    using assms by (rule Progress_increment_completed_enabled)
  obtain l' where l': "EpochLoopProgress_reset_on_epoch (l\<lparr>epoch := ?e\<rparr>) = Inr l'"
      "total (epoch l') = total (epoch (l\<lparr>epoch := ?e\<rparr>))"
      "\<forall>s. getattr (current (epoch l')) s
           = (if getattr (current (epoch (l\<lparr>epoch := ?e\<rparr>))) s = PNone then PNone else PInt 0)"
      "\<forall>s. getattr (current (batch (epoch l'))) s
           = (if getattr (current (batch (epoch (l\<lparr>epoch := ?e\<rparr>)))) s = PNone then PNone else PInt 0)"
    using EpochLoopProgress_reset_on_epoch_returns [of "l\<lparr>epoch := ?e\<rparr>"] by blast
  have cur: "getattr (current (epoch l')) s = (if s = Completed then PInt 0
       else if getattr (current (epoch l)) s = PNone then PNone else PInt 0)" for s
    using l'(3) [rule_format, of s] by (cases s) simp_all
  have "completed (current (epoch l')) = PInt 0"
    using cur [of Completed] by simp
  moreover have "\<forall>s. getattr (current (epoch l)) s \<noteq> PNone \<longrightarrow> getattr (current (epoch l')) s = PInt 0"
    using cur by simp
  moreover have "\<forall>s. getattr (current (batch (epoch l))) s \<noteq> PNone \<longrightarrow>
      getattr (current (batch (epoch l'))) s = PInt 0"
    using l'(4) by simp
  ultimately show ?thesis
    using l'(1,2)
    by (simp add: increment_epoch_completed_def inc)
qed

lemma times_call_FitLoopProgress_increment_epoch_completed:
  "completed (total (epoch l)) = PInt a \<Longrightarrow> completed (current (epoch l)) = PInt b \<Longrightarrow>
     \<exists>l'. times_call n FitLoopProgress_increment_epoch_completed l = Inr l'
       \<and> completed (total (epoch l')) = PInt (a + int n)
       \<and> completed (current (epoch l')) = PInt (b + int n)"
proof (induction n arbitrary: l a b)
  case 0
  then show ?case by simp
next
  case (Suc n)
  obtain l1 where l1: "FitLoopProgress_increment_epoch_completed l = Inr l1"
      "completed (total (epoch l1)) = PInt (a + 1)" "completed (current (epoch l1)) = PInt (b + 1)"
    using FitLoopProgress_increment_epoch_completed_returns [OF Suc.prems] by blast
  obtain l' where "times_call n FitLoopProgress_increment_epoch_completed l1 = Inr l'"
      "completed (total (epoch l')) = PInt (a + 1 + int n)"
      "completed (current (epoch l')) = PInt (b + 1 + int n)"
    using Suc.IH [OF l1(2,3)] by blast
  then show ?case
    by (simp add: l1(1) add.commute add.left_commute)
qed

text \<open>
  C8. For \<^verbatim>\<open>FitLoopProgress\<close>, \<^verbatim>\<open>EpochLoopProgress\<close> and \<^verbatim>\<open>TrainingValLoopPorgress\<close>,
  \<^verbatim>\<open>increment_epoch_completed\<close> is \<^verbatim>\<open>epoch.increment_completed\<close> followed by the
  \<^verbatim>\<open>reset_on_epoch\<close> of the object's own class. When \<^verbatim>\<open>epoch.total.completed\<close> and
  \<^verbatim>\<open>epoch.current.completed\<close> hold integers the call returns with \<^verbatim>\<open>total_epoch_completed\<close>
  one higher and the window counters reset: \<^verbatim>\<open>epoch.batch.current\<close> for the fit loop, which
  keeps \<^verbatim>\<open>epoch.current\<close>, and also \<^verbatim>\<open>epoch.current\<close> for the other two. From a new
  \<^verbatim>\<open>FitLoopProgress\<close>, \<open>n\<close> calls return with \<^verbatim>\<open>total_epoch_completed\<close> equal to \<open>n\<close>; three
  calls give 3.
\<close>

theorem increment_epoch_completed_advances_then_resets:
  "FitLoopProgress_increment_epoch_completed fl
     = and_then (Progress_increment_completed (epoch fl))
         (\<lambda>e. FitLoopProgress_reset_on_epoch (fl\<lparr>epoch := e\<rparr>))
   \<and> EpochLoopProgress_increment_epoch_completed el
     = and_then (Progress_increment_completed (epoch el))
         (\<lambda>e. EpochLoopProgress_reset_on_epoch (el\<lparr>epoch := e\<rparr>))
   \<and> TrainingValLoopPorgress_increment_epoch_completed vl
     = and_then (Progress_increment_completed (epoch vl))
         (\<lambda>e. EpochLoopProgress_reset_on_epoch (vl\<lparr>epoch := e\<rparr>))
   \<and> (completed (total (epoch fl)) = PInt a \<and> completed (current (epoch fl)) = PInt b \<longrightarrow>
        (\<exists>l'. FitLoopProgress_increment_epoch_completed fl = Inr l'
           \<and> total_epoch_completed l' = PInt (a + 1)
           \<and> completed (current (epoch l')) = PInt (b + 1)
           \<and> (\<forall>s. getattr (current (batch (epoch fl))) s \<noteq> PNone \<longrightarrow>
                  getattr (current (batch (epoch l'))) s = PInt 0)))
   \<and> (completed (total (epoch el)) = PInt a \<and> completed (current (epoch el)) = PInt b \<longrightarrow>
        (\<exists>l'. EpochLoopProgress_increment_epoch_completed el = Inr l'
           \<and> total_epoch_completed l' = PInt (a + 1)
           \<and> completed (current (epoch l')) = PInt 0
           \<and> (\<forall>s. getattr (current (epoch el)) s \<noteq> PNone \<longrightarrow>
                  getattr (current (epoch l')) s = PInt 0)
           \<and> (\<forall>s. getattr (current (batch (epoch el))) s \<noteq> PNone \<longrightarrow>
                  getattr (current (batch (epoch l'))) s = PInt 0)))
   \<and> (completed (total (epoch vl)) = PInt a \<and> completed (current (epoch vl)) = PInt b \<longrightarrow>
        (\<exists>l'. TrainingValLoopPorgress_increment_epoch_completed vl = Inr l'
           \<and> total_epoch_completed l' = PInt (a + 1)
           \<and> completed (current (epoch l')) = PInt 0
           \<and> (\<forall>s. getattr (current (epoch vl)) s \<noteq> PNone \<longrightarrow>
                  getattr (current (epoch l')) s = PInt 0)
           \<and> (\<forall>s. getattr (current (batch (epoch vl))) s \<noteq> PNone \<longrightarrow>
                  getattr (current (batch (epoch l'))) s = PInt 0)))
   \<and> (\<exists>l'. times_call n FitLoopProgress_increment_epoch_completed FitLoopProgress_init = Inr l'
          \<and> total_epoch_completed l' = PInt (int n))
   \<and> (\<exists>l'. times_call 3 FitLoopProgress_increment_epoch_completed FitLoopProgress_init = Inr l'
          \<and> total_epoch_completed l' = PInt 3)"
proof -
  have init: "completed (total (epoch FitLoopProgress_init)) = PInt 0"
      "completed (current (epoch FitLoopProgress_init)) = PInt 0"
    by (simp_all add: FitLoopProgress_init_def TrainingEpochProgress_init_def Tracker_init_def)
  have many: "\<exists>l'. times_call k FitLoopProgress_increment_epoch_completed FitLoopProgress_init = Inr l'
          \<and> total_epoch_completed l' = PInt (int k)" for k
    using times_call_FitLoopProgress_increment_epoch_completed [OF init, of k]
    by (auto simp: total_epoch_completed_def)
  have three: "\<exists>l'. times_call 3 FitLoopProgress_increment_epoch_completed FitLoopProgress_init = Inr l'
          \<and> total_epoch_completed l' = PInt 3"
    using many [of 3] by simp
  show ?thesis
    using FitLoopProgress_increment_epoch_completed_returns [of fl a b]
      EpochLoopProgress_increment_epoch_completed_returns [of el a b]
      EpochLoopProgress_increment_epoch_completed_returns [of vl a b]
      many [of n] three
    by (simp add: FitLoopProgress_increment_epoch_completed_def
        EpochLoopProgress_increment_epoch_completed_def
        TrainingValLoopPorgress_increment_epoch_completed_def
        increment_epoch_completed_def total_epoch_completed_def)
qed

theorem increment_epoch_completed_advances_then_resets_witness:
  "completed (total (epoch FitLoopProgress_midrun)) = PInt 2
   \<and> completed (current (epoch FitLoopProgress_midrun)) = PInt 2
   \<and> completed (total (epoch EpochLoopProgress_init)) = PInt 0
   \<and> completed (current (epoch EpochLoopProgress_init)) = PInt 0
   \<and> completed (total (epoch TrainingValLoopPorgress_init)) = PInt 0
   \<and> completed (current (epoch TrainingValLoopPorgress_init)) = PInt 0
   \<and> (\<exists>l'. FitLoopProgress_increment_epoch_completed FitLoopProgress_midrun = Inr l'
          \<and> total_epoch_completed l' = PInt 3 \<and> completed (current (epoch l')) = PInt 3)
   \<and> (\<exists>l'. EpochLoopProgress_increment_epoch_completed EpochLoopProgress_init = Inr l'
          \<and> total_epoch_completed l' = PInt 1 \<and> completed (current (epoch l')) = PInt 0)
   \<and> (\<exists>l'. TrainingValLoopPorgress_increment_epoch_completed TrainingValLoopPorgress_init = Inr l'
          \<and> total_epoch_completed l' = PInt 1 \<and> completed (current (epoch l')) = PInt 0)"
proof -
  have f: "completed (total (epoch FitLoopProgress_midrun)) = PInt 2
      \<and> completed (current (epoch FitLoopProgress_midrun)) = PInt 2"
    by (simp add: FitLoopProgress_midrun_def)
  have e: "completed (total (epoch EpochLoopProgress_init)) = PInt 0
      \<and> completed (current (epoch EpochLoopProgress_init)) = PInt 0"
    by (simp add: EpochLoopProgress_init_def EpochProgress_init_def Tracker_init_def)
  have v: "completed (total (epoch TrainingValLoopPorgress_init)) = PInt 0
      \<and> completed (current (epoch TrainingValLoopPorgress_init)) = PInt 0"
    by (simp add: TrainingValLoopPorgress_init_def EpochProgress_init_def Tracker_init_def)
  note w1 = increment_epoch_completed_advances_then_resets
      [where fl = FitLoopProgress_midrun and el = EpochLoopProgress_init
        and vl = TrainingValLoopPorgress_init and a = 2 and b = 2 and n = 3,
        THEN conjunct2, THEN conjunct2, THEN conjunct2]
  note w2 = increment_epoch_completed_advances_then_resets
      [where fl = FitLoopProgress_midrun and el = EpochLoopProgress_init
        and vl = TrainingValLoopPorgress_init and a = 0 and b = 0 and n = 3,
        THEN conjunct2, THEN conjunct2, THEN conjunct2, THEN conjunct2]
  have "\<exists>l'. FitLoopProgress_increment_epoch_completed FitLoopProgress_midrun = Inr l'
          \<and> total_epoch_completed l' = PInt 3 \<and> completed (current (epoch l')) = PInt 3"
    using w1 [THEN conjunct1] f by auto
  moreover have "\<exists>l'. EpochLoopProgress_increment_epoch_completed EpochLoopProgress_init = Inr l'
          \<and> total_epoch_completed l' = PInt 1 \<and> completed (current (epoch l')) = PInt 0"
    using w2 [THEN conjunct1] e by auto
  moreover have "\<exists>l'. TrainingValLoopPorgress_increment_epoch_completed TrainingValLoopPorgress_init = Inr l'
          \<and> total_epoch_completed l' = PInt 1 \<and> completed (current (epoch l')) = PInt 0"
    using w2 [THEN conjunct2, THEN conjunct1] v by auto
  ultimately show ?thesis
    using f e v by blast
qed

subsection \<open>The partition shared by total and current\<close>

lemma Progress_increment_unfold:
  "Progress_increment s p =
     (if getattr (total p) s = PNone \<or> getattr (current p) s = PNone then Inr p
      else
        and_then (py_add_one (getattr (total p) s)) (\<lambda>a.
        and_then (Tracker_setattr (total p) s a) (\<lambda>t.
        and_then (py_add_one (getattr (current p) s)) (\<lambda>b.
        and_then (Tracker_setattr (current p) s b) (\<lambda>c.
        Inr (p\<lparr>total := t, current := c\<rparr>))))))"
  by (cases s)
    (simp_all add: Progress_increment_ready_def Progress_increment_started_def
      Progress_increment_processed_def Progress_increment_completed_def)

lemma py_add_one_not_none: "py_add_one v = Inr w \<Longrightarrow> w \<noteq> PNone"
  by (cases v) auto

lemma partition_of_object_setattr:
  "getattr t s \<noteq> PNone \<Longrightarrow> v \<noteq> PNone \<Longrightarrow> partition_of (object_setattr t s v) = partition_of t"
  by (cases s) (simp_all add: partition_of_def)

lemma Progress_increment_partition:
  assumes "Progress_increment s p = Inr p'"
  shows "partition_of (total p') = partition_of (total p)
         \<and> partition_of (current p') = partition_of (current p)"
proof (cases "getattr (total p) s = PNone \<or> getattr (current p) s = PNone")
  case True
  then show ?thesis
    using assms by (simp add: Progress_increment_unfold)
next
  case False
  then obtain a b where
      a: "py_add_one (getattr (total p) s) = Inr a" and
      b: "py_add_one (getattr (current p) s) = Inr b" and
      p': "p' = p\<lparr>total := object_setattr (total p) s a, current := object_setattr (current p) s b\<rparr>"
    using assms
    by (auto simp: Progress_increment_unfold and_then_case Tracker_setattr_def split: sum.splits)
  show ?thesis
    using False a b
    by (simp add: p' partition_of_object_setattr py_add_one_not_none)
qed

lemma is_counter_cases: "is_counter v \<Longrightarrow> v = PNone \<or> (\<exists>n. v = PInt n)"
  by (cases v) simp_all

lemma Progress_increment_consistent:
  "Progress_consistent p \<and> is_counter (getattr (total p) s) \<and> is_counter (getattr (current p) s)
     \<longrightarrow> (\<exists>p'. Progress_increment s p = Inr p' \<and> Progress_consistent p')"
proof (intro impI, elim conjE)
  assume c: "Progress_consistent p"
    and t: "is_counter (getattr (total p) s)" and u: "is_counter (getattr (current p) s)"
  have "\<exists>p'. Progress_increment s p = Inr p'"
    using is_counter_cases [OF t] is_counter_cases [OF u]
      Progress_increment_enabled [of p s] Progress_increment_disabled [of p s]
    by auto
  then obtain p' where p': "Progress_increment s p = Inr p'" ..
  then have "Progress_consistent p'"
    using Progress_increment_partition [OF p'] c by (simp add: Progress_consistent_def)
  with p' show "\<exists>p'. Progress_increment s p = Inr p' \<and> Progress_consistent p'" by blast
qed

lemma Progress_reset_consistent:
  "Progress_consistent p \<longrightarrow>
     (\<exists>c. Tracker_reset (current p) = Inr c \<and> Progress_consistent (p\<lparr>current := c\<rparr>))
     \<and> (\<exists>t. Tracker_reset (total p) = Inr t \<and> Progress_consistent (p\<lparr>total := t\<rparr>))"
  using Tracker_reset_returns [of "current p"] Tracker_reset_returns [of "total p"]
  by (auto simp: Progress_consistent_def)

lemma EpochProgress_reset_on_epoch_consistent:
  "EpochProgress_consistent e \<longrightarrow>
     (\<exists>e'. EpochProgress_reset_on_epoch e = Inr e' \<and> EpochProgress_consistent e')"
  using Tracker_reset_returns [of "current (batch e)"]
  by (auto simp: EpochProgress_reset_on_epoch_def EpochProgress_consistent_def Progress_consistent_def)

lemma OptimizerProgress_reset_on_epoch_consistent:
  "OptimizerProgress_consistent opt \<longrightarrow>
     (\<exists>opt'. OptimizerProgress_reset_on_epoch opt = Inr opt' \<and> OptimizerProgress_consistent opt')"
  using Tracker_reset_returns [of "current (step opt)"] Tracker_reset_returns [of "current (zero_grad opt)"]
  by (auto simp: OptimizerProgress_reset_on_epoch_def OptimizerProgress_consistent_def
      Progress_consistent_def)

lemma OptimizationProgress_reset_on_epoch_consistent:
  "OptimizationProgress_consistent opt \<longrightarrow>
     (\<exists>opt'. OptimizationProgress_reset_on_epoch opt = Inr opt'
        \<and> OptimizationProgress_consistent opt')"
  using OptimizerProgress_reset_on_epoch_consistent [of "optimizer opt"]
    Tracker_reset_returns [of "current (scheduler opt)"]
  by (auto simp: OptimizationProgress_reset_on_epoch_def OptimizationProgress_consistent_def
      Progress_consistent_def)

lemma EpochLoopProgress_reset_on_epoch_consistent:
  "EpochLoopProgress_consistent l \<longrightarrow>
     (\<exists>l'. EpochLoopProgress_reset_on_epoch l = Inr l' \<and> EpochLoopProgress_consistent l')"
  using Tracker_reset_returns [of "current (batch (epoch l))"] Tracker_reset_returns [of "current (epoch l)"]
  by (auto simp: EpochLoopProgress_reset_on_epoch_def EpochProgress_reset_on_epoch_def
      EpochLoopProgress_consistent_def EpochProgress_consistent_def Progress_consistent_def)

lemma FitLoopProgress_reset_on_epoch_consistent:
  "FitLoopProgress_consistent l \<longrightarrow>
     (\<exists>l'. FitLoopProgress_reset_on_epoch l = Inr l' \<and> FitLoopProgress_consistent l')"
  using Tracker_reset_returns [of "current (batch (epoch l))"]
    OptimizationProgress_reset_on_epoch_consistent [of "optim (epoch l)"]
  by (auto simp: FitLoopProgress_reset_on_epoch_def EpochProgress_reset_on_epoch_def
      FitLoopProgress_consistent_def EpochProgress_consistent_def Progress_consistent_def)

lemma constructed_consistent:
  "Progress_consistent (Progress_from_defaults kwargs)"
  "Progress_consistent Progress_init"
  "EpochProgress_consistent EpochProgress_init"
  "OptimizerProgress_consistent OptimizerProgress_init"
  "OptimizationProgress_consistent OptimizationProgress_init"
  "EpochLoopProgress_consistent EpochLoopProgress_init"
  "EpochLoopProgress_consistent TrainingValLoopPorgress_init"
  "FitLoopProgress_consistent FitLoopProgress_init"
  by (simp_all add: Progress_consistent_def EpochProgress_consistent_def
      OptimizerProgress_consistent_def OptimizationProgress_consistent_def
      EpochLoopProgress_consistent_def FitLoopProgress_consistent_def
      Progress_from_defaults_def Progress_init_def EpochProgress_init_def OptimizerProgress_init_def
      OptimizationProgress_init_def EpochLoopProgress_init_def TrainingValLoopPorgress_init_def
      TrainingEpochProgress_init_def FitLoopProgress_init_def)

lemma Progress_setstate_consistent:
  "map_of kvs ''total'' = Some (PDict ta) \<and> map_of kvs ''current'' = Some (PDict cu)
   \<and> (\<forall>s. (map_of ta (stage_name s) = None) = (map_of cu (stage_name s) = None)
          \<and> (map_of ta (stage_name s) = Some PNone) = (map_of cu (stage_name s) = Some PNone))
   \<and> Progress_consistent p
   \<longrightarrow> (\<exists>p'. Progress_setstate p (PDict kvs) = Inr p' \<and> Progress_consistent p')"
proof (intro impI, elim conjE)
  assume t: "map_of kvs ''total'' = Some (PDict ta)" and c: "map_of kvs ''current'' = Some (PDict cu)"
    and same: "\<forall>s. (map_of ta (stage_name s) = None) = (map_of cu (stage_name s) = None)
          \<and> (map_of ta (stage_name s) = Some PNone) = (map_of cu (stage_name s) = Some PNone)"
    and cons: "Progress_consistent p"
  have f: "(dict_update_field ta (stage_name s) (getattr (total p) s) = PNone)
         = (dict_update_field cu (stage_name s) (getattr (current p) s) = PNone)" for s
    using same [rule_format, of s] cons
    by (cases s) (auto simp: dict_update_field_def Progress_consistent_def partition_of_def
        split: option.splits)
  show "\<exists>p'. Progress_setstate p (PDict kvs) = Inr p' \<and> Progress_consistent p'"
    using f [of Ready] f [of Started] f [of Processed] f [of Completed]
    by (simp add: Progress_setstate_def t c Progress_consistent_def partition_of_def)
qed

lemma Progress_consistent_getattr:
  "Progress_consistent p \<Longrightarrow> (getattr (total p) s = PNone) = (getattr (current p) s = PNone)"
  by (cases s) (simp_all add: Progress_consistent_def partition_of_def)

lemma Tracker_reset_on_restart_partition:
  "processed t \<noteq> PNone \<or> completed t \<noteq> PNone \<Longrightarrow>
     \<exists>t'. Tracker_reset_on_restart t = Inr t' \<and> partition_of t' = partition_of t"
  by (auto simp: Tracker_reset_on_restart_eq Let_def partition_of_def)

lemma Progress_reset_on_restart_consistent:
  "Progress_consistent p \<and> (processed (total p) \<noteq> PNone \<or> completed (total p) \<noteq> PNone) \<longrightarrow>
     (\<exists>c. Tracker_reset_on_restart (current p) = Inr c \<and> Progress_consistent (p\<lparr>current := c\<rparr>))
     \<and> (\<exists>t. Tracker_reset_on_restart (total p) = Inr t \<and> Progress_consistent (p\<lparr>total := t\<rparr>))"
proof (intro impI, elim conjE)
  assume c: "Progress_consistent p"
    and e: "processed (total p) \<noteq> PNone \<or> completed (total p) \<noteq> PNone"
  from e have e': "processed (current p) \<noteq> PNone \<or> completed (current p) \<noteq> PNone"
    using Progress_consistent_getattr [OF c, of Processed] Progress_consistent_getattr [OF c, of Completed]
    by simp
  show "(\<exists>c. Tracker_reset_on_restart (current p) = Inr c \<and> Progress_consistent (p\<lparr>current := c\<rparr>))
     \<and> (\<exists>t. Tracker_reset_on_restart (total p) = Inr t \<and> Progress_consistent (p\<lparr>total := t\<rparr>))"
    using Tracker_reset_on_restart_partition [OF e] Tracker_reset_on_restart_partition [OF e'] c
    by (auto simp: Progress_consistent_def)
qed

lemma Progress_write_consistent:
  "Progress_consistent p \<and> getattr (total p) s \<noteq> PNone \<and> v \<noteq> PNone \<longrightarrow>
     (\<exists>c. Tracker_setattr (current p) s v = Inr c \<and> Progress_consistent (p\<lparr>current := c\<rparr>))
     \<and> (\<exists>t. Tracker_setattr (total p) s v = Inr t \<and> Progress_consistent (p\<lparr>total := t\<rparr>))"
proof (intro impI, elim conjE)
  assume c: "Progress_consistent p" and e: "getattr (total p) s \<noteq> PNone" and v: "v \<noteq> PNone"
  from e have e': "getattr (current p) s \<noteq> PNone"
    using Progress_consistent_getattr [OF c, of s] by simp
  show "(\<exists>c. Tracker_setattr (current p) s v = Inr c \<and> Progress_consistent (p\<lparr>current := c\<rparr>))
     \<and> (\<exists>t. Tracker_setattr (total p) s v = Inr t \<and> Progress_consistent (p\<lparr>total := t\<rparr>))"
    using c e e' partition_of_object_setattr [OF e v] partition_of_object_setattr [OF e' v]
    by (simp add: Tracker_setattr_def Progress_consistent_def)
qed

text \<open>
  C9, as stated, fails on the code. Take the Progress that
  \<^verbatim>\<open>Progress.from_defaults(processed=None, completed=None)\<close> builds: its two Trackers have
  the same partition. \<^verbatim>\<open>total.reset_on_restart()\<close> carries \<^verbatim>\<open>completed\<close>, which is \<^verbatim>\<open>None\<close>,
  into \<^verbatim>\<open>ready\<close> and \<^verbatim>\<open>started\<close>, so every field of \<^verbatim>\<open>total\<close> is disabled afterwards while
  \<^verbatim>\<open>current\<close> keeps two enabled fields. Assigning \<^verbatim>\<open>None\<close> to \<^verbatim>\<open>total.ready\<close> succeeds as well
  and leaves the two partitions different.
\<close>

theorem partition_broken_counterexample:
  "Progress_consistent \<lparr>total = \<lparr>ready = PInt 0, started = PInt 0, processed = PNone, completed = PNone\<rparr>,
                         current = \<lparr>ready = PInt 0, started = PInt 0, processed = PNone, completed = PNone\<rparr>\<rparr>
   \<and> Tracker_reset_on_restart \<lparr>ready = PInt 0, started = PInt 0, processed = PNone, completed = PNone\<rparr>
       = Inr \<lparr>ready = PNone, started = PNone, processed = PNone, completed = PNone\<rparr>
   \<and> \<not> Progress_consistent \<lparr>total = \<lparr>ready = PNone, started = PNone, processed = PNone, completed = PNone\<rparr>,
                             current = \<lparr>ready = PInt 0, started = PInt 0, processed = PNone, completed = PNone\<rparr>\<rparr>
   \<and> Tracker_setattr \<lparr>ready = PInt 0, started = PInt 0, processed = PNone, completed = PNone\<rparr> Ready PNone
       = Inr \<lparr>ready = PNone, started = PInt 0, processed = PNone, completed = PNone\<rparr>
   \<and> \<not> Progress_consistent
         \<lparr>total = \<lparr>ready = PNone, started = PInt 0, processed = PNone, completed = PNone\<rparr>,
          current = \<lparr>ready = PInt 0, started = PInt 0, processed = PNone, completed = PNone\<rparr>\<rparr>"
  by (simp add: Progress_consistent_def partition_of_def Tracker_reset_on_restart_eq Let_def
      Tracker_setattr_def)

text \<open>
  C9, amended. The \<^verbatim>\<open>total\<close> and \<^verbatim>\<open>current\<close> Trackers of a Progress have the same partition
  when the Progress is built by \<^verbatim>\<open>from_defaults\<close> or by the default constructor of any class
  of the tree, and they keep the same partition through these operations:
  an increment leaves the partition of each Tracker as it was and returns when the two
  fields hold \<^verbatim>\<open>None\<close> or an integer; \<^verbatim>\<open>reset\<close> of either Tracker, and \<^verbatim>\<open>reset_on_epoch\<close> of
  EpochProgress, OptimizerProgress, OptimizationProgress, EpochLoopProgress (and its
  subclass TrainingValLoopPorgress) and FitLoopProgress return and keep every Progress
  inside consistent; the restore from a mapping whose \<^verbatim>\<open>total\<close> and \<^verbatim>\<open>current\<close> entries
  have the same keys and \<^verbatim>\<open>None\<close> under the same keys returns a consistent Progress;
  \<^verbatim>\<open>reset_on_restart\<close> of either Tracker keeps the Progress consistent when \<^verbatim>\<open>processed\<close> or
  \<^verbatim>\<open>completed\<close> is enabled; and assigning a value other than \<^verbatim>\<open>None\<close> to an enabled field of
  either Tracker keeps it consistent.
\<close>

theorem partition_shared_by_total_and_current:
  "Progress_consistent (Progress_from_defaults kwargs)
   \<and> Progress_consistent Progress_init
   \<and> EpochProgress_consistent EpochProgress_init
   \<and> OptimizerProgress_consistent OptimizerProgress_init
   \<and> OptimizationProgress_consistent OptimizationProgress_init
   \<and> EpochLoopProgress_consistent EpochLoopProgress_init
   \<and> EpochLoopProgress_consistent TrainingValLoopPorgress_init
   \<and> FitLoopProgress_consistent FitLoopProgress_init
   \<and> (\<forall>p'. Progress_increment s p = Inr p' \<longrightarrow>
          partition_of (total p') = partition_of (total p)
          \<and> partition_of (current p') = partition_of (current p))
   \<and> (Progress_consistent p \<and> is_counter (getattr (total p) s) \<and> is_counter (getattr (current p) s)
        \<longrightarrow> (\<exists>p'. Progress_increment s p = Inr p' \<and> Progress_consistent p'))
   \<and> (Progress_consistent p \<longrightarrow>
        (\<exists>c. Tracker_reset (current p) = Inr c \<and> Progress_consistent (p\<lparr>current := c\<rparr>))
        \<and> (\<exists>t. Tracker_reset (total p) = Inr t \<and> Progress_consistent (p\<lparr>total := t\<rparr>)))
   \<and> (EpochProgress_consistent ep \<longrightarrow>
        (\<exists>ep'. EpochProgress_reset_on_epoch ep = Inr ep' \<and> EpochProgress_consistent ep'))
   \<and> (OptimizerProgress_consistent op \<longrightarrow>
        (\<exists>op'. OptimizerProgress_reset_on_epoch op = Inr op' \<and> OptimizerProgress_consistent op'))
   \<and> (OptimizationProgress_consistent opt \<longrightarrow>
        (\<exists>opt'. OptimizationProgress_reset_on_epoch opt = Inr opt'
           \<and> OptimizationProgress_consistent opt'))
   \<and> (EpochLoopProgress_consistent el \<longrightarrow>
        (\<exists>el'. EpochLoopProgress_reset_on_epoch el = Inr el' \<and> EpochLoopProgress_consistent el'))
   \<and> (FitLoopProgress_consistent fl \<longrightarrow>
        (\<exists>fl'. FitLoopProgress_reset_on_epoch fl = Inr fl' \<and> FitLoopProgress_consistent fl'))
   \<and> (map_of kvs ''total'' = Some (PDict ta) \<and> map_of kvs ''current'' = Some (PDict cu)
        \<and> (\<forall>s. (map_of ta (stage_name s) = None) = (map_of cu (stage_name s) = None)
               \<and> (map_of ta (stage_name s) = Some PNone) = (map_of cu (stage_name s) = Some PNone))
        \<and> Progress_consistent p
        \<longrightarrow> (\<exists>p'. Progress_setstate p (PDict kvs) = Inr p' \<and> Progress_consistent p'))
   \<and> (Progress_consistent p \<and> (processed (total p) \<noteq> PNone \<or> completed (total p) \<noteq> PNone) \<longrightarrow>
        (\<exists>c. Tracker_reset_on_restart (current p) = Inr c \<and> Progress_consistent (p\<lparr>current := c\<rparr>))
        \<and> (\<exists>t. Tracker_reset_on_restart (total p) = Inr t \<and> Progress_consistent (p\<lparr>total := t\<rparr>)))
   \<and> (Progress_consistent p \<and> getattr (total p) s \<noteq> PNone \<and> v \<noteq> PNone \<longrightarrow>
        (\<exists>c. Tracker_setattr (current p) s v = Inr c \<and> Progress_consistent (p\<lparr>current := c\<rparr>))
        \<and> (\<exists>t. Tracker_setattr (total p) s v = Inr t \<and> Progress_consistent (p\<lparr>total := t\<rparr>)))"
  using Progress_increment_partition [of s p]
  by (intro conjI allI)
    (rule constructed_consistent Progress_increment_consistent Progress_reset_consistent
      EpochProgress_reset_on_epoch_consistent OptimizerProgress_reset_on_epoch_consistent
      OptimizationProgress_reset_on_epoch_consistent EpochLoopProgress_reset_on_epoch_consistent
      FitLoopProgress_reset_on_epoch_consistent Progress_setstate_consistent
      Progress_reset_on_restart_consistent Progress_write_consistent
      | blast)+


theorem partition_shared_by_total_and_current_witness:
  "Progress_consistent (scheduler (optim (epoch FitLoopProgress_midrun)))
   \<and> is_counter (getattr (total (scheduler (optim (epoch FitLoopProgress_midrun)))) Completed)
   \<and> is_counter (getattr (current (scheduler (optim (epoch FitLoopProgress_midrun)))) Completed)
   \<and> (\<exists>p'. Progress_increment Completed (scheduler (optim (epoch FitLoopProgress_midrun))) = Inr p'
          \<and> Progress_consistent p')
   \<and> (\<exists>c. Tracker_reset (current (scheduler (optim (epoch FitLoopProgress_midrun)))) = Inr c
          \<and> Progress_consistent ((scheduler (optim (epoch FitLoopProgress_midrun)))\<lparr>current := c\<rparr>))
   \<and> EpochProgress_consistent (epoch FitLoopProgress_midrun)
   \<and> (\<exists>ep'. EpochProgress_reset_on_epoch (epoch FitLoopProgress_midrun) = Inr ep'
          \<and> EpochProgress_consistent ep')
   \<and> OptimizerProgress_consistent (optimizer (optim (epoch FitLoopProgress_midrun)))
   \<and> (\<exists>op'. OptimizerProgress_reset_on_epoch (optimizer (optim (epoch FitLoopProgress_midrun))) = Inr op'
          \<and> OptimizerProgress_consistent op')
   \<and> OptimizationProgress_consistent (optim (epoch FitLoopProgress_midrun))
   \<and> (\<exists>opt'. OptimizationProgress_reset_on_epoch (optim (epoch FitLoopProgress_midrun)) = Inr opt'
          \<and> OptimizationProgress_consistent opt')
   \<and> EpochLoopProgress_consistent (val (epoch FitLoopProgress_midrun))
   \<and> (\<exists>el'. EpochLoopProgress_reset_on_epoch (val (epoch FitLoopProgress_midrun)) = Inr el'
          \<and> EpochLoopProgress_consistent el')
   \<and> FitLoopProgress_consistent FitLoopProgress_midrun
   \<and> (\<exists>fl'. FitLoopProgress_reset_on_epoch FitLoopProgress_midrun = Inr fl'
          \<and> FitLoopProgress_consistent fl')
   \<and> (\<exists>p'. Progress_setstate (scheduler (optim (epoch FitLoopProgress_midrun)))
               (PDict [(''total'', PDict [(''ready'', PInt 7), (''started'', PNone), (''processed'', PNone), (''completed'', PInt 7)]),
                (''current'', PDict [(''ready'', PInt 1), (''started'', PNone), (''processed'', PNone), (''completed'', PInt 0)])]) = Inr p'
          \<and> Progress_consistent p')
   \<and> completed (total (scheduler (optim (epoch FitLoopProgress_midrun)))) \<noteq> PNone
   \<and> (\<exists>t. Tracker_reset_on_restart (total (scheduler (optim (epoch FitLoopProgress_midrun)))) = Inr t
          \<and> Progress_consistent ((scheduler (optim (epoch FitLoopProgress_midrun)))\<lparr>total := t\<rparr>))
   \<and> getattr (total (scheduler (optim (epoch FitLoopProgress_midrun)))) Completed \<noteq> PNone
   \<and> PInt 9 \<noteq> PNone
   \<and> (\<exists>t. Tracker_setattr (total (scheduler (optim (epoch FitLoopProgress_midrun)))) Completed (PInt 9) = Inr t
          \<and> Progress_consistent ((scheduler (optim (epoch FitLoopProgress_midrun)))\<lparr>total := t\<rparr>))"
proof -
  have en: "completed (total (scheduler (optim (epoch FitLoopProgress_midrun)))) \<noteq> PNone"
    and en': "getattr (total (scheduler (optim (epoch FitLoopProgress_midrun)))) Completed \<noteq> PNone"
    and nn: "PInt 9 \<noteq> PNone"
    by (simp_all add: FitLoopProgress_midrun_def)
  have p: "Progress_consistent (scheduler (optim (epoch FitLoopProgress_midrun)))"
    and t: "is_counter (getattr (total (scheduler (optim (epoch FitLoopProgress_midrun)))) Completed)"
    and c: "is_counter (getattr (current (scheduler (optim (epoch FitLoopProgress_midrun)))) Completed)"
    and ep: "EpochProgress_consistent (epoch FitLoopProgress_midrun)"
    and op: "OptimizerProgress_consistent (optimizer (optim (epoch FitLoopProgress_midrun)))"
    and opt: "OptimizationProgress_consistent (optim (epoch FitLoopProgress_midrun))"
    and el: "EpochLoopProgress_consistent (val (epoch FitLoopProgress_midrun))"
    and fl: "FitLoopProgress_consistent FitLoopProgress_midrun"
    by (simp_all add: FitLoopProgress_midrun_def Progress_consistent_def EpochProgress_consistent_def
        OptimizerProgress_consistent_def OptimizationProgress_consistent_def
        EpochLoopProgress_consistent_def FitLoopProgress_consistent_def partition_of_def
        TrainingValLoopPorgress_init_def EpochProgress_init_def Progress_init_def Tracker_init_def)
  have k: "map_of [(''total'', PDict [(''ready'', PInt 7), (''started'', PNone), (''processed'', PNone), (''completed'', PInt 7)]),
                (''current'', PDict [(''ready'', PInt 1), (''started'', PNone), (''processed'', PNone), (''completed'', PInt 0)])] ''total''
             = Some (PDict [(''ready'', PInt 7), (''started'', PNone), (''processed'', PNone), (''completed'', PInt 7)])"
      "map_of [(''total'', PDict [(''ready'', PInt 7), (''started'', PNone), (''processed'', PNone), (''completed'', PInt 7)]),
                (''current'', PDict [(''ready'', PInt 1), (''started'', PNone), (''processed'', PNone), (''completed'', PInt 0)])] ''current''
             = Some (PDict [(''ready'', PInt 1), (''started'', PNone), (''processed'', PNone), (''completed'', PInt 0)])"
    by simp_all
  have same: "\<forall>s. (map_of [(''ready'', PInt 7), (''started'', PNone), (''processed'', PNone), (''completed'', PInt 7)] (stage_name s) = None)
             = (map_of [(''ready'', PInt 1), (''started'', PNone), (''processed'', PNone), (''completed'', PInt 0)] (stage_name s) = None)
          \<and> (map_of [(''ready'', PInt 7), (''started'', PNone), (''processed'', PNone), (''completed'', PInt 7)] (stage_name s) = Some PNone)
             = (map_of [(''ready'', PInt 1), (''started'', PNone), (''processed'', PNone), (''completed'', PInt 0)] (stage_name s) = Some PNone)"
  proof
    fix s
    show "(map_of [(''ready'', PInt 7), (''started'', PNone), (''processed'', PNone), (''completed'', PInt 7)] (stage_name s) = None)
             = (map_of [(''ready'', PInt 1), (''started'', PNone), (''processed'', PNone), (''completed'', PInt 0)] (stage_name s) = None)
          \<and> (map_of [(''ready'', PInt 7), (''started'', PNone), (''processed'', PNone), (''completed'', PInt 7)] (stage_name s) = Some PNone)
             = (map_of [(''ready'', PInt 1), (''started'', PNone), (''processed'', PNone), (''completed'', PInt 0)] (stage_name s) = Some PNone)"
      by (cases s) simp_all
  qed
  note w = partition_shared_by_total_and_current
      [where kwargs = "[Processed \<mapsto> PNone]" and s = Completed and v = "PInt 9"
        and p = "scheduler (optim (epoch FitLoopProgress_midrun))"
        and ep = "epoch FitLoopProgress_midrun"
        and op = "optimizer (optim (epoch FitLoopProgress_midrun))"
        and opt = "optim (epoch FitLoopProgress_midrun)"
        and el = "val (epoch FitLoopProgress_midrun)"
        and fl = FitLoopProgress_midrun
        and kvs = "[(''total'', PDict [(''ready'', PInt 7), (''started'', PNone), (''processed'', PNone), (''completed'', PInt 7)]),
                (''current'', PDict [(''ready'', PInt 1), (''started'', PNone), (''processed'', PNone), (''completed'', PInt 0)])]"
        and ta = "[(''ready'', PInt 7), (''started'', PNone), (''processed'', PNone), (''completed'', PInt 7)]"
        and cu = "[(''ready'', PInt 1), (''started'', PNone), (''processed'', PNone), (''completed'', PInt 0)]"]
  show ?thesis
    using w p t c ep op opt el fl k same en en' nn by blast
qed

end
